theory Spec2Isabelle
  imports Complex_Main "HOL-Library.Sublist" "HOL-Library.AList"
begin

section \<open>Python values\<close>

text \<open>
  The pipeline computes with Python and numpy floats. A float is modelled as either the
  not-a-number value or a number, taken as a real: overflow is not modelled, the behaviour
  of comparisons on NaN (every ordering test is false, \<open>!=\<close> is true) is. The values that
  pandas computes by accumulation, the mean and the standard deviation of a series, depend
  on rounding and are parameters of the model.
\<close>

datatype pyfloat = NaN | Fl real

fun gt_f :: "pyfloat \<Rightarrow> real \<Rightarrow> bool" where
  "gt_f NaN b = False"
| "gt_f (Fl a) b = (a > b)"

fun ge_f :: "pyfloat \<Rightarrow> real \<Rightarrow> bool" where
  "ge_f NaN b = False"
| "ge_f (Fl a) b = (a \<ge> b)"

fun lt_f :: "pyfloat \<Rightarrow> real \<Rightarrow> bool" where
  "lt_f NaN b = False"
| "lt_f (Fl a) b = (a < b)"

fun ne_f :: "pyfloat \<Rightarrow> real \<Rightarrow> bool" where
  "ne_f NaN b = True"
| "ne_f (Fl a) b = (a \<noteq> b)"

fun abs_f :: "pyfloat \<Rightarrow> pyfloat" where
  "abs_f NaN = NaN"
| "abs_f (Fl a) = Fl \<bar>a\<bar>"

text \<open>Division as the guarded call sites use it: the divisor has been tested before.\<close>

fun div_f :: "pyfloat \<Rightarrow> pyfloat \<Rightarrow> pyfloat" where
  "div_f (Fl a) (Fl b) = (if b = 0 then NaN else Fl (a / b))"
| "div_f _ _ = NaN"

fun mul_f :: "pyfloat \<Rightarrow> pyfloat \<Rightarrow> pyfloat" where
  "mul_f (Fl a) (Fl b) = Fl (a * b)"
| "mul_f _ _ = NaN"

datatype error = KeyError string | ValueError | TypeError | AttributeError | IndexError

section \<open>Lexicalizer\<close>

text \<open>
  \<open>Lexicalizer.describe_trend\<close> of \<open>lexicalizer.py\<close>, the module the template realizer
  imports. The direction word is computed once, before the branch on the variable type.
\<close>

definition describe_trend :: "pyfloat \<Rightarrow> pyfloat \<Rightarrow> string \<Rightarrow> string" where
  "describe_trend slope r_squared var_type =
    (if lt_f r_squared 0.2 then ''remained relatively stable''
     else
       let magnitude = abs_f slope;
           direction = (if gt_f slope 0 then ''increasing'' else ''decreasing'')
       in if var_type = ''temperature'' then
            (let strength = (if gt_f magnitude 0.5 then ''significant''
                             else if gt_f magnitude 0.2 then ''moderate''
                             else ''slight'')
             in ''showed '' @ strength @ '' '' @ direction)
          else if var_type = ''precipitation'' then
            (let strength = (if gt_f magnitude 2 then ''substantially''
                             else if gt_f magnitude 1 then ''moderately''
                             else ''slightly'')
             in strength @ '' '' @ direction)
          else
            (let direction = (if gt_f slope 0 then ''increased'' else ''decreased'')
             in direction))"

text \<open>
  \<open>Lexicalizer.describe_trend\<close> of the single-file deployment \<open>ai.py\<close>: the direction
  word starts as warming/cooling and is replaced in the two other branches.
\<close>

definition describe_trend_ai :: "pyfloat \<Rightarrow> pyfloat \<Rightarrow> string \<Rightarrow> string" where
  "describe_trend_ai slope r_squared var_type =
    (if lt_f r_squared 0.2 then ''remained relatively stable''
     else
       let magnitude = abs_f slope;
           direction = (if gt_f slope 0 then ''warming'' else ''cooling'')
       in if var_type = ''temperature'' then
            (let strength = (if gt_f magnitude 0.5 then ''significant''
                             else if gt_f magnitude 0.2 then ''moderate''
                             else ''slight'')
             in ''showed '' @ strength @ '' '' @ direction)
          else if var_type = ''precipitation'' then
            (let direction = (if gt_f slope 0 then ''increasing'' else ''decreasing'');
                 strength = (if gt_f magnitude 2 then ''substantially''
                             else if gt_f magnitude 1 then ''moderately''
                             else ''slightly'')
             in strength @ '' '' @ direction)
          else
            (let direction = (if gt_f slope 0 then ''increased'' else ''decreased'')
             in direction))"

definition describe_temperature :: "pyfloat \<Rightarrow> string" where
  "describe_temperature temp =
    (if lt_f temp 0 then ''freezing''
     else if lt_f temp 8 then ''cold''
     else if lt_f temp 16 then ''cool''
     else if lt_f temp 25 then ''mild''
     else if lt_f temp 32 then ''warm''
     else ''hot'')"

definition describe_variability :: "pyfloat \<Rightarrow> string" where
  "describe_variability cv =
    (if gt_f cv 1.0 then ''highly variable''
     else if gt_f cv 0.6 then ''quite variable''
     else if gt_f cv 0.3 then ''moderately variable''
     else ''relatively stable'')"

text \<open>
  The wording of the specification, for comparison: the strength tier chosen from the
  magnitude by two thresholds, and the direction word the specification assigns to a kind.
\<close>

definition tier :: "real \<Rightarrow> real \<Rightarrow> string \<Rightarrow> string \<Rightarrow> string \<Rightarrow> pyfloat \<Rightarrow> string" where
  "tier hi lo strong moderate slight slope =
    (if gt_f (abs_f slope) hi then strong
     else if gt_f (abs_f slope) lo then moderate
     else slight)"

definition claimed_direction :: "string \<Rightarrow> pyfloat \<Rightarrow> string" where
  "claimed_direction var_type slope =
    (if var_type = ''temperature''
     then (if gt_f slope 0 then ''warming'' else ''cooling'')
     else (if gt_f slope 0 then ''increasing'' else ''decreasing''))"

section \<open>Statistics bundle\<close>

text \<open>
  The nested dictionaries that \<open>DatasetAnalyzer.analyze\<close> builds, one record per
  dictionary literal of \<open>dataset_analyzer.py\<close>. A sub-bundle the analyzer may return as
  \<open>None\<close> is an option; \<open>trend\<close> and \<open>summary\<close> are always dictionaries. Record fields carry
  a prefix where the key alone would clash with another record or a HOL constant.
\<close>

record date =
  year :: int
  month :: nat
  day :: nat

text \<open>The dates of the basic information are \<open>None\<close> where pandas has NaT.\<close>

record basic_info =
  start_date :: "date option"
  end_date :: "date option"
  n_records :: nat
  station :: string

record summary_stats =
  summary_mean :: pyfloat
  summary_std :: pyfloat
  summary_min :: pyfloat
  summary_max :: pyfloat
  coefficient_of_variation :: pyfloat

record range_stats =
  absolute_min :: "pyfloat option"
  absolute_max :: "pyfloat option"

record trend_stats =
  slope :: pyfloat
  r_value :: pyfloat
  r_squared :: pyfloat
  p_value :: pyfloat
  direction :: string

record seasonal_stats =
  summer :: "real option"
  winter :: "real option"
  spring :: "real option"
  fall :: "real option"
  seasonal_range :: real

record yearly_stats =
  yearly_mean :: real
  yearly_std :: pyfloat
  highest_year :: int
  highest_value :: real
  lowest_year :: int
  lowest_value :: real
  highest_zscore :: pyfloat
  lowest_zscore :: pyfloat

record extreme_event =
  event_value :: real
  event_date :: date

record extremes_stats =
  highest :: "extreme_event option"
  lowest :: "extreme_event option"

record real_feel_diff =
  avg_difference :: real
  is_negative :: bool

record group_stats =
  g_summary :: summary_stats
  g_range :: "range_stats option"
  g_trend :: trend_stats
  g_seasonal :: "seasonal_stats option"
  g_yearly :: "yearly_stats option"
  g_extremes :: "extremes_stats option"
  g_optional_features :: "real_feel_diff option"

record trending_var =
  tv_name :: string
  tv_r_squared :: pyfloat
  tv_direction :: string
  tv_slope :: pyfloat

record correlation_stats =
  correlation :: pyfloat
  relationship :: string

text \<open>
  \<open>strongest_trends\<close> is a key that is only set to a non-empty list: the empty list stands
  for the absent key. The dictionary \<open>correlations\<close> keeps its insertion order.
\<close>

record patterns_stats =
  strongest_trends :: "trending_var list"
  most_variable :: "(string \<times> pyfloat) option"
  correlations :: "(string \<times> correlation_stats) list"

text \<open>
  The result of \<open>analyze\<close> is one dictionary: \<open>basic\<close> holds what is under the key of that
  name, which is the basic information unless a group is called \<open>basic\<close> and has replaced
  it; \<open>patterns\<close> holds what is under the key \<open>patterns\<close>; \<open>groups\<close> holds the items under
  every other key, in insertion order.
\<close>

datatype basic_entry = BasicInfo basic_info | BasicGroup group_stats

record statistics =
  basic :: basic_entry
  groups :: "(string \<times> group_stats) list"
  patterns :: "patterns_stats option"

section \<open>Content planner\<close>

record config =
  r2_threshold :: real
  p_value_threshold :: real
  extreme_threshold :: real

text \<open>The dictionary \<open>max_corr_vars\<close>; \<open>None\<close> is the empty dictionary it starts as.\<close>

record max_corr_vars =
  variables :: string
  mc_correlation :: pyfloat
  mc_relationship :: string

datatype payload =
    Overview basic_entry
  | GroupP group_stats
  | TrendP trend_stats
  | SeasonalP seasonal_stats
  | YearlyP yearly_stats
  | ExtremesP extremes_stats
  | OtherP "(string \<times> group_stats) list"
  | PatternTrendsP "trending_var list"
  | CorrelationP "max_corr_vars option"

type_synonym fact = "string \<times> payload"

definition is_trend_significant :: "config \<Rightarrow> trend_stats option \<Rightarrow> bool" where
  "is_trend_significant cfg trend_stats =
    (case trend_stats of
       None \<Rightarrow> False
     | Some t \<Rightarrow> ge_f (r_squared t) (r2_threshold cfg) \<and> lt_f (p_value t) (p_value_threshold cfg))"

definition is_yearly_comparison_notable :: "config \<Rightarrow> yearly_stats option \<Rightarrow> bool" where
  "is_yearly_comparison_notable cfg yearly_stats =
    (case yearly_stats of
       None \<Rightarrow> False
     | Some y \<Rightarrow> ge_f (abs_f (highest_zscore y)) (extreme_threshold cfg) \<or>
                ge_f (abs_f (lowest_zscore y)) (extreme_threshold cfg))"

text \<open>
  \<open>_is_variable_notable\<close>: a group bundle is never an empty dictionary and always has its
  \<open>trend\<close> and \<open>yearly\<close> keys, so the defaults of the \<open>get\<close> calls are not reached.
\<close>

definition is_variable_notable :: "config \<Rightarrow> group_stats \<Rightarrow> bool" where
  "is_variable_notable cfg var_stats =
    (if gt_f (coefficient_of_variation (g_summary var_stats)) 0.6 then True
     else if gt_f (r_squared (g_trend var_stats)) (r2_threshold cfg) then True
     else (case g_yearly var_stats of
             None \<Rightarrow> False
           | Some yearly \<Rightarrow>
               (if gt_f (abs_f (highest_zscore yearly)) (extreme_threshold cfg) then True
                else False)))"

text \<open>Python truth value of the \<open>extremes\<close> entry: neither \<open>None\<close> nor an empty dictionary.\<close>

definition extremes_truthy :: "extremes_stats option \<Rightarrow> bool" where
  "extremes_truthy e =
    (case e of None \<Rightarrow> False | Some x \<Rightarrow> highest x \<noteq> None \<or> lowest x \<noteq> None)"

text \<open>Body of the loop over the primary variables: \<open>content\<close> is the list being appended to.\<close>

definition primary_step :: "config \<Rightarrow> statistics \<Rightarrow> fact list \<Rightarrow> string \<Rightarrow> fact list" where
  "primary_step cfg stats content primary_var =
    (case map_of (groups stats) primary_var of
       None \<Rightarrow> content
     | Some g \<Rightarrow>
         let content = content @ [(primary_var @ ''_summary'', GroupP g)];
             content = (if is_trend_significant cfg (Some (g_trend g))
                        then content @ [(primary_var @ ''_trend'', TrendP (g_trend g))]
                        else content);
             content = (case g_seasonal g of
                          Some s \<Rightarrow> content @ [(primary_var @ ''_seasonal'', SeasonalP s)]
                        | None \<Rightarrow> content);
             content = (if is_yearly_comparison_notable cfg (g_yearly g)
                        then content @ [(primary_var @ ''_yearly'', YearlyP (the (g_yearly g)))]
                        else content);
             content = (if extremes_truthy (g_extremes g)
                        then content @ [(primary_var @ ''_extremes'', ExtremesP (the (g_extremes g)))]
                        else content)
         in content)"

definition secondary_step ::
  "config \<Rightarrow> statistics \<Rightarrow> (string \<times> group_stats) list \<Rightarrow> string \<Rightarrow> (string \<times> group_stats) list" where
  "secondary_step cfg stats secondary_vars var =
    (case map_of (groups stats) var of
       None \<Rightarrow> secondary_vars
     | Some g \<Rightarrow> if is_variable_notable cfg g then secondary_vars @ [(var, g)] else secondary_vars)"

text \<open>Body of the scan over the correlations: the state is \<open>(max_corr, max_corr_vars)\<close>.\<close>

definition corr_step ::
  "real \<times> max_corr_vars option \<Rightarrow> string \<times> correlation_stats \<Rightarrow> real \<times> max_corr_vars option" where
  "corr_step st entry =
    (case correlation (snd entry) of
       NaN \<Rightarrow> st
     | Fl c \<Rightarrow>
         if c > fst st
         then (c, Some \<lparr>variables = fst entry, mc_correlation = Fl c,
                        mc_relationship = relationship (snd entry)\<rparr>)
         else st)"

definition select_content :: "config \<Rightarrow> statistics \<Rightarrow> fact list" where
  "select_content cfg stats =
    (let content = [(''overview'', Overview (basic stats))];
         content = foldl (primary_step cfg stats) content [''temperature'', ''precipitation''];
         secondary_vars = foldl (secondary_step cfg stats) []
            [''wind_speed'', ''relative_humidity'', ''rain'', ''snow'',
             ''precipitation_hours'', ''sunshine_duration''];
         content = (if secondary_vars \<noteq> [] then content @ [(''other_conditions'', OtherP secondary_vars)]
                    else content);
         content = (case patterns stats of
                      None \<Rightarrow> content
                    | Some p \<Rightarrow>
                        let content = (if strongest_trends p \<noteq> []
                                       then content @ [(''pattern_trends'', PatternTrendsP (strongest_trends p))]
                                       else content);
                            max_corr_vars = snd (foldl corr_step (0, None) (correlations p))
                        in content @ [(''pattern_correlation'', CorrelationP max_corr_vars)])
     in content)"

subsection \<open>The planner in the words of the specification\<close>

text \<open>
  The planner as the specification words it, for comparison with \<open>select_content\<close>: the
  facts of one primary variable, the single fact bundling the notable secondary variables,
  and the cross-variable facts.
\<close>

definition secondary_names :: "string list" where
  "secondary_names = [''wind_speed'', ''relative_humidity'', ''rain'', ''snow'',
                      ''precipitation_hours'', ''sunshine_duration'']"

definition spec_primary_facts :: "config \<Rightarrow> statistics \<Rightarrow> string \<Rightarrow> fact list" where
  "spec_primary_facts cfg stats v =
    (case map_of (groups stats) v of
       None \<Rightarrow> []
     | Some g \<Rightarrow>
         [(v @ ''_summary'', GroupP g)] @
         (if ge_f (r_squared (g_trend g)) (r2_threshold cfg) \<and>
             lt_f (p_value (g_trend g)) (p_value_threshold cfg)
          then [(v @ ''_trend'', TrendP (g_trend g))] else []) @
         (case g_seasonal g of Some s \<Rightarrow> [(v @ ''_seasonal'', SeasonalP s)] | None \<Rightarrow> []) @
         (case g_yearly g of
            Some y \<Rightarrow>
              if ge_f (abs_f (highest_zscore y)) (extreme_threshold cfg) \<or>
                 ge_f (abs_f (lowest_zscore y)) (extreme_threshold cfg)
              then [(v @ ''_yearly'', YearlyP y)] else []
          | None \<Rightarrow> []) @
         (case g_extremes g of
            Some e \<Rightarrow> if highest e = None \<and> lowest e = None then []
                      else [(v @ ''_extremes'', ExtremesP e)]
          | None \<Rightarrow> []))"

definition spec_other_conditions :: "config \<Rightarrow> statistics \<Rightarrow> fact list" where
  "spec_other_conditions cfg stats =
    (let notable = concat (map (\<lambda>v. case map_of (groups stats) v of
                                        None \<Rightarrow> []
                                      | Some g \<Rightarrow> if is_variable_notable cfg g then [(v, g)] else [])
                               secondary_names)
     in if notable = [] then [] else [(''other_conditions'', OtherP notable)])"

definition spec_pattern_facts :: "statistics \<Rightarrow> fact list" where
  "spec_pattern_facts stats =
    (case patterns stats of
       None \<Rightarrow> []
     | Some p \<Rightarrow>
         (if strongest_trends p = [] then []
          else [(''pattern_trends'', PatternTrendsP (strongest_trends p))]) @
         [(''pattern_correlation'', CorrelationP (snd (foldl corr_step (0, None) (correlations p))))])"

text \<open>
  The selection the specification asks for: the scan keeps the entry of greatest absolute
  correlation, and no fact is due when the mapping is empty.
\<close>

definition abs_corr_step ::
  "real \<times> max_corr_vars option \<Rightarrow> string \<times> correlation_stats \<Rightarrow> real \<times> max_corr_vars option" where
  "abs_corr_step st entry =
    (case correlation (snd entry) of
       NaN \<Rightarrow> st
     | Fl c \<Rightarrow>
         if \<bar>c\<bar> > fst st
         then (\<bar>c\<bar>, Some \<lparr>variables = fst entry, mc_correlation = Fl c,
                          mc_relationship = relationship (snd entry)\<rparr>)
         else st)"

definition claimed_correlation_facts :: "patterns_stats \<Rightarrow> fact list" where
  "claimed_correlation_facts p =
    (if correlations p = [] then []
     else [(''pattern_correlation'',
            CorrelationP (snd (foldl abs_corr_step (0, None) (correlations p))))])"

definition is_trend_fact :: "fact \<Rightarrow> bool" where
  "is_trend_fact f = suffix ''_trend'' (fst f)"

definition is_yearly_fact :: "fact \<Rightarrow> bool" where
  "is_yearly_fact f = suffix ''_yearly'' (fst f)"

section \<open>Example inputs\<close>

text \<open>The thresholds are the defaults of the command line in \<open>summarize.py\<close>.\<close>

definition demo_cfg :: config where
  "demo_cfg = \<lparr>r2_threshold = 0.3, p_value_threshold = 0.05, extreme_threshold = 2\<rparr>"

definition demo_basic :: basic_entry where
  "demo_basic = BasicInfo \<lparr>start_date = Some \<lparr>year = 2020, month = 1, day = 1\<rparr>,
                            end_date = Some \<lparr>year = 2022, month = 12, day = 31\<rparr>,
                            n_records = 1096, station = ''unknown''\<rparr>"

definition demo_group :: group_stats where
  "demo_group =
    \<lparr>g_summary = \<lparr>summary_mean = Fl 15, summary_std = Fl 3, summary_min = Fl 10,
                   summary_max = Fl 20, coefficient_of_variation = Fl (1/5)\<rparr>,
     g_range = None,
     g_trend = \<lparr>slope = Fl (8/10), r_value = Fl (9/10), r_squared = Fl (81/100),
                 p_value = Fl (1/1000), direction = ''increasing''\<rparr>,
     g_seasonal = None,
     g_yearly = Some \<lparr>yearly_mean = 15, yearly_std = Fl 1, highest_year = 2022,
                       highest_value = 35/2, lowest_year = 2020, lowest_value = 14,
                       highest_zscore = Fl (5/2), lowest_zscore = Fl (-1)\<rparr>,
     g_extremes = None,
     g_optional_features = None\<rparr>"

definition demo_patterns :: "(string \<times> correlation_stats) list \<Rightarrow> patterns_stats" where
  "demo_patterns cs = \<lparr>strongest_trends = [], most_variable = None, correlations = cs\<rparr>"

definition demo_stats :: "(string \<times> correlation_stats) list \<Rightarrow> statistics" where
  "demo_stats cs = \<lparr>basic = demo_basic, groups = [(''temperature'', demo_group)],
                     patterns = Some (demo_patterns cs)\<rparr>"

definition direct_pair :: "string \<times> correlation_stats" where
  "direct_pair = (''temperature_and_rain'', \<lparr>correlation = Fl (6/10), relationship = ''direct''\<rparr>)"

definition inverse_pair :: "string \<times> correlation_stats" where
  "inverse_pair = (''temperature_and_snow'', \<lparr>correlation = Fl (-9/10), relationship = ''inverse''\<rparr>)"

section \<open>Observation table\<close>

text \<open>
  The pandas DataFrame the analyzer reads, after \<open>_load_data\<close> has parsed the dates and
  dropped every row with a missing value: \<open>df_columns\<close> names the numeric columns (the
  \<open>date\<close> column is kept apart, in \<open>row_date\<close>), and a row gives the value under each of
  them. Values under other names are never read. Rows are in table order, and an index
  label is identified with the position of its row.
\<close>

record row =
  row_date :: date
  row_values :: "string \<Rightarrow> real"

record dataframe =
  df_columns :: "string list"
  df_rows :: "row list"

definition in_columns :: "dataframe \<Rightarrow> string \<Rightarrow> bool" where
  "in_columns df c = (c \<in> set (df_columns df))"

definition col_values :: "dataframe \<Rightarrow> string \<Rightarrow> real list" where
  "col_values df c = map (\<lambda>r. row_values r c) (df_rows df)"

text \<open>\<open>self.df[col]\<close>: a KeyError when the table has no such column.\<close>

definition column :: "dataframe \<Rightarrow> string \<Rightarrow> error + real list" where
  "column df c = (if in_columns df c then Inr (col_values df c) else Inl (KeyError c))"

definition dates :: "dataframe \<Rightarrow> date list" where
  "dates df = map row_date (df_rows df)"

subsection \<open>The library routines the analyzer calls\<close>

text \<open>
  \<open>scipy.stats.linregress\<close> is a parameter of the model: a routine that takes the time index
  and the observations and either raises or returns slope, intercept, r value, p value
  and standard error. So are the number pandas computes as the mean of a non-empty series
  and the number it computes as the standard deviation of a series of at least two values:
  both come out of floating-point accumulation, and nothing is assumed about them.
\<close>

record linregress_result =
  lr_slope :: pyfloat
  lr_intercept :: pyfloat
  lr_rvalue :: pyfloat
  lr_pvalue :: pyfloat
  lr_stderr :: pyfloat

type_synonym regression = "real list \<Rightarrow> real list \<Rightarrow> error + linregress_result"

record numerics =
  lib_linregress :: regression
  lib_mean :: "real list \<Rightarrow> real"
  lib_std :: "real list \<Rightarrow> real"

text \<open>
  \<open>Series.mean\<close>, \<open>std\<close> (sample standard deviation, one degree of freedom removed),
  \<open>min\<close> and \<open>max\<close> return NaN where pandas does: on an empty series, and for \<open>std\<close> also
  on a series of one value.
\<close>

definition series_mean :: "numerics \<Rightarrow> real list \<Rightarrow> pyfloat" where
  "series_mean lib xs = (if xs = [] then NaN else Fl (lib_mean lib xs))"

definition series_std :: "numerics \<Rightarrow> real list \<Rightarrow> pyfloat" where
  "series_std lib xs = (if length xs < 2 then NaN else Fl (lib_std lib xs))"

definition series_min :: "real list \<Rightarrow> pyfloat" where
  "series_min xs = (if xs = [] then NaN else Fl (Min (set xs)))"

definition series_max :: "real list \<Rightarrow> pyfloat" where
  "series_max xs = (if xs = [] then NaN else Fl (Max (set xs)))"

text \<open>
  \<open>Series.idxmax\<close> and \<open>idxmin\<close>: a left-to-right scan that replaces the current best only
  by a strictly better value, so the first occurrence of the extreme value is returned; a
  ValueError on an empty series.
\<close>

fun argmax_scan :: "real list \<Rightarrow> nat \<Rightarrow> nat \<Rightarrow> real \<Rightarrow> nat" where
  "argmax_scan [] i best_i best = best_i"
| "argmax_scan (x # xs) i best_i best =
     (if x > best then argmax_scan xs (Suc i) i x else argmax_scan xs (Suc i) best_i best)"

fun argmin_scan :: "real list \<Rightarrow> nat \<Rightarrow> nat \<Rightarrow> real \<Rightarrow> nat" where
  "argmin_scan [] i best_i best = best_i"
| "argmin_scan (x # xs) i best_i best =
     (if x < best then argmin_scan xs (Suc i) i x else argmin_scan xs (Suc i) best_i best)"

definition idxmax :: "real list \<Rightarrow> error + nat" where
  "idxmax xs = (case xs of [] \<Rightarrow> Inl ValueError | x # rest \<Rightarrow> Inr (argmax_scan rest 1 0 x))"

definition idxmin :: "real list \<Rightarrow> error + nat" where
  "idxmin xs = (case xs of [] \<Rightarrow> Inl ValueError | x # rest \<Rightarrow> Inr (argmin_scan rest 1 0 x))"

text \<open>
  \<open>Series.corr\<close>, the Pearson correlation, by its formula over the arithmetic mean: NaN
  when one of the two series has no spread (in particular on fewer than two rows).
\<close>

definition mean_of :: "real list \<Rightarrow> real" where
  "mean_of xs = sum_list xs / real (length xs)"

definition pearson :: "real list \<Rightarrow> real list \<Rightarrow> pyfloat" where
  "pearson xs ys =
    (let sxy = sum_list (map2 (\<lambda>x y. (x - mean_of xs) * (y - mean_of ys)) xs ys);
         sxx = sum_list (map (\<lambda>x. (x - mean_of xs)\<^sup>2) xs);
         syy = sum_list (map (\<lambda>y. (y - mean_of ys)\<^sup>2) ys)
     in if sxx * syy = 0 then NaN else Fl (sxy / sqrt (sxx * syy)))"

subsection \<open>Calendar fields of a date\<close>

definition is_leap :: "int \<Rightarrow> bool" where
  "is_leap y = (y mod 4 = 0 \<and> (y mod 100 \<noteq> 0 \<or> y mod 400 = 0))"

definition month_lengths :: "int \<Rightarrow> nat list" where
  "month_lengths y = [31, if is_leap y then 29 else 28, 31, 30, 31, 30, 31, 31, 30, 31, 30, 31]"

definition dayofyear :: "date \<Rightarrow> nat" where
  "dayofyear d = sum_list (take (month d - 1) (month_lengths (year d))) + day d"

definition year_numeric :: "date \<Rightarrow> real" where
  "year_numeric d = real_of_int (year d) + real (dayofyear d) / 365.25"

definition date_le :: "date \<Rightarrow> date \<Rightarrow> bool" where
  "date_le a b =
    (year a < year b \<or>
     (year a = year b \<and> (month a < month b \<or> (month a = month b \<and> day a \<le> day b))))"

section \<open>Dataset analyzer\<close>

text \<open>
  One entry of the \<open>variable_groups\<close> schema; the schema itself is a dictionary, kept as the
  list of its items in iteration order. The leading underscore of the method names is
  dropped.
\<close>

record variable_group =
  primary :: string
  supporting :: "string list"
  comparison :: "string list"

type_synonym schema = "(string \<times> variable_group) list"

text \<open>
  \<open>_compute_basic_info\<close>: the minimum and the maximum of an empty date column are NaT, and
  so are their \<open>date()\<close>.
\<close>

definition compute_basic_info :: "dataframe \<Rightarrow> string \<Rightarrow> basic_info" where
  "compute_basic_info df station_name =
    \<lparr>start_date = (case dates df of
                     [] \<Rightarrow> None
                   | d # ds \<Rightarrow> Some (foldl (\<lambda>m x. if date_le m x then m else x) d ds)),
     end_date = (case dates df of
                   [] \<Rightarrow> None
                 | d # ds \<Rightarrow> Some (foldl (\<lambda>m x. if date_le x m then m else x) d ds)),
     n_records = length (df_rows df),
     station = station_name\<rparr>"

definition summarize_primary :: "numerics \<Rightarrow> dataframe \<Rightarrow> string \<Rightarrow> error + summary_stats" where
  "summarize_primary lib df col =
    (case column df col of
       Inl e \<Rightarrow> Inl e
     | Inr xs \<Rightarrow>
         Inr \<lparr>summary_mean = series_mean lib xs,
              summary_std = series_std lib xs,
              summary_min = series_min xs,
              summary_max = series_max xs,
              coefficient_of_variation =
                (if ne_f (series_mean lib xs) 0
                 then div_f (series_std lib xs) (series_mean lib xs)
                 else Fl 0)\<rparr>)"

text \<open>\<open>str.lower\<close> on the letters A to Z, and the substring test \<open>'max' in s\<close>.\<close>

definition lower_char :: "char \<Rightarrow> char" where
  "lower_char c =
    (case map_of (zip ''ABCDEFGHIJKLMNOPQRSTUVWXYZ'' ''abcdefghijklmnopqrstuvwxyz'') c of
       None \<Rightarrow> c
     | Some l \<Rightarrow> l)"

definition lower :: "string \<Rightarrow> string" where
  "lower s = map lower_char s"

definition range_step :: "dataframe \<Rightarrow> range_stats \<Rightarrow> string \<Rightarrow> range_stats" where
  "range_step df range_info col =
    (if in_columns df col then
       (if sublist ''min'' (lower col)
        then range_info\<lparr>absolute_min := Some (series_min (col_values df col))\<rparr>
        else if sublist ''max'' (lower col)
        then range_info\<lparr>absolute_max := Some (series_max (col_values df col))\<rparr>
        else range_info)
     else range_info)"

definition compute_range :: "dataframe \<Rightarrow> string list \<Rightarrow> range_stats option" where
  "compute_range df supporting_cols =
    (if supporting_cols = [] then None
     else
       let range_info = foldl (range_step df) \<lparr>absolute_min = None, absolute_max = None\<rparr>
                              supporting_cols
       in if absolute_min range_info = None \<and> absolute_max range_info = None then None
          else Some range_info)"

definition detect_trend :: "regression \<Rightarrow> dataframe \<Rightarrow> string \<Rightarrow> error + trend_stats" where
  "detect_trend linregress df col =
    (let year_numerics = map year_numeric (dates df)
     in case column df col of
          Inl e \<Rightarrow> Inl e
        | Inr ys \<Rightarrow>
            (case linregress year_numerics ys of
               Inl e \<Rightarrow> Inl e
             | Inr r \<Rightarrow>
                 Inr \<lparr>slope = lr_slope r,
                      r_value = lr_rvalue r,
                      r_squared = mul_f (lr_rvalue r) (lr_rvalue r),
                      p_value = lr_pvalue r,
                      direction = (if gt_f (lr_slope r) 0 then ''increasing'' else ''decreasing'')\<rparr>))"

definition get_season :: "nat \<Rightarrow> string" where
  "get_season m =
    (if m \<in> {12, 1, 2} then ''winter''
     else if m \<in> {3, 4, 5} then ''spring''
     else if m \<in> {6, 7, 8} then ''summer''
     else ''fall'')"

text \<open>Mean of one group of a \<open>groupby\<close>: a group with no row does not appear in the result.\<close>

definition group_mean :: "numerics \<Rightarrow> real list \<Rightarrow> real option" where
  "group_mean lib vs = (if vs = [] then None else Some (lib_mean lib vs))"

definition season_mean :: "numerics \<Rightarrow> dataframe \<Rightarrow> string \<Rightarrow> string \<Rightarrow> real option" where
  "season_mean lib df col s =
    group_mean lib (map (\<lambda>r. row_values r col)
                        (filter (\<lambda>r. get_season (month (row_date r)) = s) (df_rows df)))"

definition compute_seasonal_patterns ::
  "numerics \<Rightarrow> dataframe \<Rightarrow> string \<Rightarrow> error + seasonal_stats option" where
  "compute_seasonal_patterns lib df col =
    (case column df col of
       Inl e \<Rightarrow> Inl e
     | Inr xs \<Rightarrow>
         let seasonal = List.map_filter (season_mean lib df col)
                          [''fall'', ''spring'', ''summer'', ''winter'']
         in if length seasonal > 0
            then Inr (Some \<lparr>summer = season_mean lib df col ''summer'',
                            winter = season_mean lib df col ''winter'',
                            spring = season_mean lib df col ''spring'',
                            fall = season_mean lib df col ''fall'',
                            seasonal_range = Max (set seasonal) - Min (set seasonal)\<rparr>)
            else Inr None)"

definition zscore :: "real \<Rightarrow> real \<Rightarrow> pyfloat \<Rightarrow> pyfloat" where
  "zscore v mean_val std_val =
    (case std_val of
       NaN \<Rightarrow> Fl 0
     | Fl s \<Rightarrow> if s > 0 then Fl ((v - mean_val) / s) else Fl 0)"

text \<open>\<open>groupby\<close> on the calendar year lists the years in ascending order.\<close>

definition compute_yearly_comparisons ::
  "numerics \<Rightarrow> dataframe \<Rightarrow> string \<Rightarrow> error + yearly_stats option" where
  "compute_yearly_comparisons lib df col =
    (case column df col of
       Inl e \<Rightarrow> Inl e
     | Inr xs \<Rightarrow>
         let years = sort (remdups (map year (dates df)));
             yearly = map (\<lambda>y. lib_mean lib (map (\<lambda>r. row_values r col)
                                    (filter (\<lambda>r. year (row_date r) = y) (df_rows df)))) years
         in if length yearly = 0 then Inr None
            else
              let mean_val = lib_mean lib yearly;
                  std_val = series_std lib yearly
              in (case idxmax yearly of
                    Inl e \<Rightarrow> Inl e
                  | Inr highest_year_idx \<Rightarrow>
                      (case idxmin yearly of
                         Inl e \<Rightarrow> Inl e
                       | Inr lowest_year_idx \<Rightarrow>
                           Inr (Some \<lparr>yearly_mean = mean_val,
                                      yearly_std = std_val,
                                      highest_year = years ! highest_year_idx,
                                      highest_value = yearly ! highest_year_idx,
                                      lowest_year = years ! lowest_year_idx,
                                      lowest_value = yearly ! lowest_year_idx,
                                      highest_zscore =
                                        zscore (yearly ! highest_year_idx) mean_val std_val,
                                      lowest_zscore =
                                        zscore (yearly ! lowest_year_idx) mean_val std_val\<rparr>))))"

text \<open>
  \<open>next((c for c in supporting_cols if token in c.lower()), primary_col)\<close>: the first
  supporting column whose lower-cased name contains the token, else the primary column.
\<close>

definition resolve_col :: "string \<Rightarrow> string \<Rightarrow> string list \<Rightarrow> string" where
  "resolve_col token primary_col supporting_cols =
    (case filter (\<lambda>c. sublist token (lower c)) supporting_cols of
       [] \<Rightarrow> primary_col
     | c # _ \<Rightarrow> c)"

definition identify_extremes ::
  "dataframe \<Rightarrow> string \<Rightarrow> string list \<Rightarrow> error + extremes_stats option" where
  "identify_extremes df primary_col supporting_cols =
    (let max_col = resolve_col ''max'' primary_col supporting_cols;
         min_col = resolve_col ''min'' primary_col supporting_cols
     in case (if in_columns df max_col
              then (case idxmax (col_values df max_col) of
                      Inl e \<Rightarrow> Inl e
                    | Inr max_idx \<Rightarrow>
                        Inr (Some \<lparr>event_value = col_values df max_col ! max_idx,
                                   event_date = dates df ! max_idx\<rparr>))
              else Inr None) of
          Inl e \<Rightarrow> Inl e
        | Inr hi \<Rightarrow>
            (case (if in_columns df min_col
                   then (case idxmin (col_values df min_col) of
                           Inl e \<Rightarrow> Inl e
                         | Inr min_idx \<Rightarrow>
                             Inr (Some \<lparr>event_value = col_values df min_col ! min_idx,
                                        event_date = dates df ! min_idx\<rparr>))
                   else Inr None) of
               Inl e \<Rightarrow> Inl e
             | Inr lo \<Rightarrow>
                 Inr (if hi = None \<and> lo = None then None
                      else Some \<lparr>highest = hi, lowest = lo\<rparr>)))"

fun optional_features_loop ::
  "numerics \<Rightarrow> dataframe \<Rightarrow> string \<Rightarrow> string list \<Rightarrow> real_feel_diff option \<Rightarrow>
   error + real_feel_diff option" where
  "optional_features_loop lib df primary_col [] features = Inr features"
| "optional_features_loop lib df primary_col (col # cols) features =
     (if \<not> in_columns df col then optional_features_loop lib df primary_col cols features
      else
        (case column df primary_col of
           Inl e \<Rightarrow> Inl e
         | Inr ps \<Rightarrow>
             let differences = map2 (\<lambda>c p. c - p) (col_values df col) ps;
                 diff = series_mean lib (map abs differences)
             in if gt_f diff 5
                then optional_features_loop lib df primary_col cols
                       (Some \<lparr>avg_difference = lib_mean lib (map abs differences),
                              is_negative = lt_f (series_mean lib differences) 0\<rparr>)
                else optional_features_loop lib df primary_col cols features))"

definition analyze_optional_features ::
  "numerics \<Rightarrow> dataframe \<Rightarrow> string \<Rightarrow> string list \<Rightarrow> error + real_feel_diff option" where
  "analyze_optional_features lib df primary_col comparison_cols =
     optional_features_loop lib df primary_col comparison_cols None"

subsection \<open>Cross-variable patterns\<close>

text \<open>
  \<open>results\<close> is the dictionary built so far: the key \<open>basic\<close> and one key per analyzed
  group. The group bundles are passed as the list of their items; a schema is expected not
  to use the reserved keys \<open>basic\<close> and \<open>patterns\<close> as group names.
\<close>

definition in_results :: "(string \<times> group_stats) list \<Rightarrow> string \<Rightarrow> bool" where
  "in_results results name = (name = ''basic'' \<or> map_of results name \<noteq> None)"

definition the_real :: "pyfloat \<Rightarrow> real" where
  "the_real x = (case x of Fl r \<Rightarrow> r | NaN \<Rightarrow> 0)"

definition trending_step ::
  "(string \<times> group_stats) list \<Rightarrow> trending_var list \<Rightarrow> string \<Rightarrow> trending_var list" where
  "trending_step results trending_vars var_name =
    (case map_of results var_name of
       None \<Rightarrow> trending_vars
     | Some g \<Rightarrow>
         let trend = g_trend g
         in if gt_f (r_squared trend) 0.3
            then trending_vars @ [\<lparr>tv_name = var_name, tv_r_squared = r_squared trend,
                                   tv_direction = direction trend, tv_slope = slope trend\<rparr>]
            else trending_vars)"

text \<open>
  \<open>list.sort(key, reverse=True)\<close> is stable: entries of equal key keep their order. Every
  entry passed the test \<open>r_squared > 0.3\<close>, so every key is a number.
\<close>

definition sort_reverse :: "('a \<Rightarrow> real) \<Rightarrow> 'a list \<Rightarrow> 'a list" where
  "sort_reverse f xs = rev (sort_key f (rev xs))"

fun gt_ff :: "pyfloat \<Rightarrow> pyfloat \<Rightarrow> bool" where
  "gt_ff (Fl a) (Fl b) = (a > b)"
| "gt_ff _ _ = False"

text \<open>\<open>max(items, key)\<close>: the first item is replaced only by one of strictly greater key.\<close>

fun max_by_cv :: "string \<times> pyfloat \<Rightarrow> (string \<times> pyfloat) list \<Rightarrow> string \<times> pyfloat" where
  "max_by_cv best [] = best"
| "max_by_cv best (x # xs) = (if gt_ff (snd x) (snd best) then max_by_cv x xs else max_by_cv best xs)"

definition variability_step ::
  "(string \<times> group_stats) list \<Rightarrow> (string \<times> pyfloat) list \<Rightarrow> string \<Rightarrow> (string \<times> pyfloat) list" where
  "variability_step results variability var_name =
    (case map_of results var_name of
       None \<Rightarrow> variability
     | Some g \<Rightarrow> AList.update var_name (coefficient_of_variation (g_summary g)) variability)"

text \<open>The pairs \<open>(i, j)\<close> with \<open>i < j\<close>, in the order the two nested loops visit them.\<close>

fun ordered_pairs :: "'a list \<Rightarrow> ('a \<times> 'a) list" where
  "ordered_pairs [] = []"
| "ordered_pairs (x # xs) = map (Pair x) xs @ ordered_pairs xs"

definition pair_key :: "string \<Rightarrow> string \<Rightarrow> string" where
  "pair_key a b = a @ ''_and_'' @ b"

definition corr_body ::
  "dataframe \<Rightarrow> (string \<times> group_stats) list \<Rightarrow> (string \<times> correlation_stats) list \<Rightarrow>
   (string \<times> variable_group) \<times> (string \<times> variable_group) \<Rightarrow> (string \<times> correlation_stats) list" where
  "corr_body df results corrs p =
    (let vi = fst (fst p); vj = fst (snd p)
     in if in_results results vi \<and> in_results results vj then
          (let i_col = primary (snd (fst p));
               j_col = primary (snd (snd p))
           in if in_columns df i_col \<and> in_columns df j_col then
                (let corr = pearson (col_values df i_col) (col_values df j_col)
                 in if gt_f (abs_f corr) 0.5
                    then AList.update (pair_key vi vj)
                           \<lparr>correlation = corr,
                            relationship = (if lt_f corr 0 then ''inverse'' else ''direct'')\<rparr> corrs
                    else corrs)
              else corrs)
        else corrs)"

definition detect_cross_variable_patterns ::
  "dataframe \<Rightarrow> schema \<Rightarrow> (string \<times> group_stats) list \<Rightarrow> patterns_stats" where
  "detect_cross_variable_patterns df variable_groups results =
    (let trending_vars = foldl (trending_step results) [] (map fst variable_groups);
         variability = foldl (variability_step results) [] (map fst variable_groups)
     in \<lparr>strongest_trends =
            (if trending_vars \<noteq> []
             then take 2 (sort_reverse (\<lambda>v. the_real (tv_r_squared v)) trending_vars)
             else []),
         most_variable =
            (case variability of
               [] \<Rightarrow> None
             | v # vs \<Rightarrow> (let most = max_by_cv v vs
                          in if gt_f (snd most) 0.5 then Some most else None)),
         correlations = foldl (corr_body df results) [] (ordered_pairs variable_groups)\<rparr>)"

subsection \<open>The analysis pipeline\<close>

text \<open>
  The entries of the dictionary literal are evaluated in the order they are written, and
  nothing in \<open>analyze\<close> catches an exception: the first sub-computation that raises ends
  the analysis.
\<close>

definition analyze_group :: "numerics \<Rightarrow> dataframe \<Rightarrow> variable_group \<Rightarrow> error + group_stats" where
  "analyze_group lib df group_config =
    (let primary_col = primary group_config
     in case summarize_primary lib df primary_col of
          Inl e \<Rightarrow> Inl e
        | Inr summary_v \<Rightarrow>
     let range_v = compute_range df (supporting group_config)
     in case detect_trend (lib_linregress lib) df primary_col of
          Inl e \<Rightarrow> Inl e
        | Inr trend_v \<Rightarrow>
     case compute_seasonal_patterns lib df primary_col of
          Inl e \<Rightarrow> Inl e
        | Inr seasonal_v \<Rightarrow>
     case compute_yearly_comparisons lib df primary_col of
          Inl e \<Rightarrow> Inl e
        | Inr yearly_v \<Rightarrow>
     case identify_extremes df primary_col (supporting group_config) of
          Inl e \<Rightarrow> Inl e
        | Inr extremes_v \<Rightarrow>
     case analyze_optional_features lib df primary_col (comparison group_config) of
          Inl e \<Rightarrow> Inl e
        | Inr optional_v \<Rightarrow>
            Inr \<lparr>g_summary = summary_v, g_range = range_v, g_trend = trend_v,
                 g_seasonal = seasonal_v, g_yearly = yearly_v, g_extremes = extremes_v,
                 g_optional_features = optional_v\<rparr>)"

text \<open>
  The loop over the schema. \<open>results\<close> holds the group bundles written so far, under their
  names; the basic information sits under \<open>basic\<close> in the same dictionary until a group of
  that name is written.
\<close>

fun analyze_groups ::
  "numerics \<Rightarrow> dataframe \<Rightarrow> schema \<Rightarrow> (string \<times> group_stats) list \<Rightarrow>
   error + (string \<times> group_stats) list" where
  "analyze_groups lib df [] results = Inr results"
| "analyze_groups lib df ((group_name, group_config) # rest) results =
     (if in_columns df (primary group_config)
      then (case analyze_group lib df group_config of
              Inl e \<Rightarrow> Inl e
            | Inr g \<Rightarrow> analyze_groups lib df rest (AList.update group_name g results))
      else analyze_groups lib df rest results)"

text \<open>
  \<open>analyze\<close>: the cross-variable patterns are computed from the dictionary as the loop
  left it and then stored under \<open>patterns\<close>, where they replace the bundle of a group of
  that name; a group called \<open>basic\<close> has replaced the basic information.
\<close>

definition analyze :: "numerics \<Rightarrow> dataframe \<Rightarrow> string \<Rightarrow> schema \<Rightarrow> error + statistics" where
  "analyze lib df station_name variable_groups =
    (let basic_v = compute_basic_info df station_name
     in case analyze_groups lib df variable_groups [] of
          Inl e \<Rightarrow> Inl e
        | Inr results \<Rightarrow>
            Inr \<lparr>basic = (case map_of results ''basic'' of
                             None \<Rightarrow> BasicInfo basic_v
                           | Some g \<Rightarrow> BasicGroup g),
                 groups = filter (\<lambda>item. fst item \<noteq> ''basic'' \<and> fst item \<noteq> ''patterns'') results,
                 patterns = Some (detect_cross_variable_patterns df variable_groups results)\<rparr>)"

section \<open>Notions of the specification and example tables\<close>

text \<open>
  The specification's notion of the first row attaining the extreme value of a column.
\<close>

definition first_max_at :: "real list \<Rightarrow> nat \<Rightarrow> bool" where
  "first_max_at xs i = (i < length xs \<and> xs ! i = Max (set xs) \<and> (\<forall>j<i. xs ! j < Max (set xs)))"

definition first_min_at :: "real list \<Rightarrow> nat \<Rightarrow> bool" where
  "first_min_at xs i = (i < length xs \<and> xs ! i = Min (set xs) \<and> (\<forall>j<i. Min (set xs) < xs ! j))"

text \<open>Three days with a tie for the highest maximum and for the lowest minimum.\<close>

definition extremes_df :: dataframe where
  "extremes_df =
    \<lparr>df_columns = [''temp'', ''temp_min'', ''Temp_MAX''],
     df_rows =
       [\<lparr>row_date = \<lparr>year = 2021, month = 7, day = 1\<rparr>,
         row_values = (\<lambda>c. if c = ''Temp_MAX'' then 30 else if c = ''temp_min'' then 12 else 20)\<rparr>,
        \<lparr>row_date = \<lparr>year = 2021, month = 7, day = 2\<rparr>,
         row_values = (\<lambda>c. if c = ''Temp_MAX'' then 34 else if c = ''temp_min'' then 9 else 21)\<rparr>,
        \<lparr>row_date = \<lparr>year = 2021, month = 7, day = 3\<rparr>,
         row_values = (\<lambda>c. if c = ''Temp_MAX'' then 34 else if c = ''temp_min'' then 9 else 22)\<rparr>]\<rparr>"

text \<open>
  The correlation analysis in the specification's terms. A pair of schema entries has the
  key \<open>key_of\<close>; it is strong when both primary columns are in the table and the absolute
  Pearson correlation exceeds 0.5; \<open>pair_entry\<close> is the dictionary stored for it.
  \<open>keys_distinct\<close> says that no two pairs of the schema share a key, and
  \<open>present_covered\<close> that every group whose primary column is in the table has a bundle
  in \<open>results\<close>, as after the loop of \<open>analyze\<close>. \<open>stored\<close> is the test the loop body makes.
\<close>

type_synonym group_pair = "(string \<times> variable_group) \<times> (string \<times> variable_group)"

definition key_of :: "group_pair \<Rightarrow> string" where
  "key_of p = pair_key (fst (fst p)) (fst (snd p))"

definition pair_corr :: "dataframe \<Rightarrow> group_pair \<Rightarrow> pyfloat" where
  "pair_corr df p =
     pearson (col_values df (primary (snd (fst p)))) (col_values df (primary (snd (snd p))))"

definition pair_strong :: "dataframe \<Rightarrow> group_pair \<Rightarrow> bool" where
  "pair_strong df p =
    (in_columns df (primary (snd (fst p))) \<and> in_columns df (primary (snd (snd p))) \<and>
     gt_f (abs_f (pair_corr df p)) 0.5)"

definition pair_entry :: "dataframe \<Rightarrow> group_pair \<Rightarrow> correlation_stats" where
  "pair_entry df p =
    \<lparr>correlation = pair_corr df p,
     relationship = (if lt_f (pair_corr df p) 0 then ''inverse'' else ''direct'')\<rparr>"

definition keys_distinct :: "schema \<Rightarrow> bool" where
  "keys_distinct variable_groups = distinct (map key_of (ordered_pairs variable_groups))"

definition present_covered :: "dataframe \<Rightarrow> schema \<Rightarrow> (string \<times> group_stats) list \<Rightarrow> bool" where
  "present_covered df variable_groups results =
    list_all (\<lambda>g. in_columns df (primary (snd g)) \<longrightarrow> map_of results (fst g) \<noteq> None)
             variable_groups"

text \<open>
  The schema of \<open>summarizer.py\<close> (the degree sign is two bytes in UTF-8), a table with a
  perfectly inverse pair of columns, and a schema in which two pairs of groups get the same
  key.
\<close>

definition degree_sign :: string where
  "degree_sign = [CHR 0xC2, CHR 0xB0]"

definition summarizer_groups :: schema where
  "summarizer_groups =
    [(''temperature'',
      \<lparr>primary = ''temperature_2m_mean ('' @ degree_sign @ ''C)'',
       supporting = [''temperature_2m_min ('' @ degree_sign @ ''C)'',
                     ''temperature_2m_max ('' @ degree_sign @ ''C)''],
       comparison = [''apparent_temperature_mean ('' @ degree_sign @ ''C)'']\<rparr>),
     (''precipitation'',
      \<lparr>primary = ''precipitation_sum (mm)'', supporting = [], comparison = []\<rparr>),
     (''rain'', \<lparr>primary = ''rain_sum (mm)'', supporting = [], comparison = []\<rparr>),
     (''snow'', \<lparr>primary = ''snowfall_sum (cm)'', supporting = [], comparison = []\<rparr>),
     (''precipitation_hours'',
      \<lparr>primary = ''precipitation_hours (h)'', supporting = [], comparison = []\<rparr>),
     (''wind_speed'',
      \<lparr>primary = ''wind_speed_10m_mean (km/h)'',
       supporting = [''wind_speed_10m_min (km/h)'', ''wind_speed_10m_max (km/h)''],
       comparison = [''wind_gusts_10m_mean (km/h)'']\<rparr>),
     (''relative_humidity'',
      \<lparr>primary = ''relative_humidity_2m_mean (%)'',
       supporting = [''relative_humidity_2m_min (%)'', ''relative_humidity_2m_max (%)''],
       comparison = []\<rparr>),
     (''sunshine_duration'',
      \<lparr>primary = ''sunshine_duration (s)'', supporting = [], comparison = []\<rparr>)]"

definition day_row :: "nat \<Rightarrow> (string \<Rightarrow> real) \<Rightarrow> row" where
  "day_row d vs = \<lparr>row_date = \<lparr>year = 2021, month = 7, day = d\<rparr>, row_values = vs\<rparr>"

definition corr_df :: dataframe where
  "corr_df =
    \<lparr>df_columns = [''temperature_2m_mean ('' @ degree_sign @ ''C)'', ''precipitation_sum (mm)''],
     df_rows = [day_row 1 (\<lambda>c. if c = ''precipitation_sum (mm)'' then 2 else 0),
                day_row 2 (\<lambda>c. if c = ''precipitation_sum (mm)'' then 1 else 1),
                day_row 3 (\<lambda>c. if c = ''precipitation_sum (mm)'' then 0 else 2)]\<rparr>"

definition corr_results :: "(string \<times> group_stats) list" where
  "corr_results = [(''temperature'', demo_group), (''precipitation'', demo_group)]"

definition clash_schema :: schema where
  "clash_schema =
    [(''a'', \<lparr>primary = ''x'', supporting = [], comparison = []\<rparr>),
     (''b_and_c'', \<lparr>primary = ''x'', supporting = [], comparison = []\<rparr>),
     (''a_and_b'', \<lparr>primary = ''k'', supporting = [], comparison = []\<rparr>),
     (''c'', \<lparr>primary = ''x'', supporting = [], comparison = []\<rparr>)]"

definition clash_df :: dataframe where
  "clash_df =
    \<lparr>df_columns = [''x'', ''k''],
     df_rows = [day_row 1 (\<lambda>c. if c = ''k'' then 5 else 0),
                day_row 2 (\<lambda>c. if c = ''k'' then 5 else 1),
                day_row 3 (\<lambda>c. if c = ''k'' then 5 else 2)]\<rparr>"

definition clash_results :: "(string \<times> group_stats) list" where
  "clash_results = map (\<lambda>g. (fst g, demo_group)) clash_schema"

definition stored :: "dataframe \<Rightarrow> (string \<times> group_stats) list \<Rightarrow> group_pair \<Rightarrow> bool" where
  "stored df results p =
    (in_results results (fst (fst p)) \<and> in_results results (fst (snd p)) \<and> pair_strong df p)"

text \<open>
  For the statements about \<open>analyze\<close>: the time index handed to the regression, the test
  that the regression raises on a group of the schema whose primary column is in the table,
  and the trend dictionary built from a regression result.
\<close>

definition time_index :: "dataframe \<Rightarrow> real list" where
  "time_index df = map year_numeric (dates df)"

definition regression_fails :: "numerics \<Rightarrow> dataframe \<Rightarrow> string \<times> variable_group \<Rightarrow> bool" where
  "regression_fails lib df g =
    (in_columns df (primary (snd g)) \<and>
     isl (lib_linregress lib (time_index df) (col_values df (primary (snd g)))))"

definition trend_of :: "linregress_result \<Rightarrow> trend_stats" where
  "trend_of r =
    \<lparr>slope = lr_slope r, r_value = lr_rvalue r,
     r_squared = mul_f (lr_rvalue r) (lr_rvalue r), p_value = lr_pvalue r,
     direction = (if gt_f (lr_slope r) 0 then ''increasing'' else ''decreasing'')\<rparr>"

text \<open>
  An example of a regression routine, after \<open>scipy.stats.linregress\<close>: it raises a
  ValueError on empty input and on a time index of several entries that are all the same.
  Otherwise it returns the least-squares slope and intercept and the r value, which is NaN
  when one of the two series has no spread. On two points the p value is 1 for equal
  observations and 0 otherwise, and the standard error is 0; on more points the standard
  error follows its formula and the p value is read off the t distribution, which is the
  parameter \<open>p_of_t\<close>.
\<close>

definition example_linregress :: "(int \<Rightarrow> pyfloat \<Rightarrow> pyfloat) \<Rightarrow> regression" where
  "example_linregress p_of_t xs ys =
    (if xs = [] \<or> ys = [] then Inl ValueError
     else if length xs > 1 \<and> Max (set xs) = Min (set xs) then Inl ValueError
     else
       let n = length xs;
           ssxm = sum_list (map (\<lambda>x. (x - mean_of xs)\<^sup>2) xs) / real n;
           ssym = sum_list (map (\<lambda>y. (y - mean_of ys)\<^sup>2) ys) / real n;
           ssxym = sum_list (map2 (\<lambda>x y. (x - mean_of xs) * (y - mean_of ys)) xs ys) / real n;
           r = (if ssxm = 0 \<or> ssym = 0 then NaN
                else Fl (max (-1) (min 1 (ssxym / sqrt (ssxm * ssym)))));
           slope_v = div_f (Fl ssxym) (Fl ssxm);
           intercept_v = (case slope_v of
                            NaN \<Rightarrow> NaN
                          | Fl sl \<Rightarrow> Fl (mean_of ys - sl * mean_of xs));
           df = int n - 2;
           tiny = 1 / 10 ^ 20;
           t = (case r of
                  NaN \<Rightarrow> NaN
                | Fl rv \<Rightarrow> Fl (rv * sqrt (real_of_int df / ((1 - rv + tiny) * (1 + rv + tiny)))))
       in Inr \<lparr>lr_slope = slope_v,
               lr_intercept = intercept_v,
               lr_rvalue = r,
               lr_pvalue = (if n = 2 then Fl (if ys ! 0 = ys ! 1 then 1 else 0) else p_of_t df t),
               lr_stderr =
                 (if n = 2 then Fl 0
                  else (case r of
                          NaN \<Rightarrow> NaN
                        | Fl rv \<Rightarrow>
                            if ssxm = 0 then NaN
                            else Fl (sqrt ((1 - rv\<^sup>2) * ssym / ssxm / real_of_int df))))\<rparr>)"

text \<open>
  Library routines for the examples: the regression above with no t distribution at hand
  (the example tables on which the regression runs have two rows), the arithmetic mean, and
  the standard deviation by its formula, which are the values pandas gives when no rounding
  occurs, as on the example tables.
\<close>

definition exact_std :: "real list \<Rightarrow> real" where
  "exact_std xs = sqrt (sum_list (map (\<lambda>x. (x - mean_of xs)\<^sup>2) xs) / real (length xs - 1))"

definition example_numerics :: numerics where
  "example_numerics =
    \<lparr>lib_linregress = example_linregress (\<lambda>df t. NaN), lib_mean = mean_of, lib_std = exact_std\<rparr>"

text \<open>
  A schema of one group, a table of two rows that carry the same date, and one of two
  consecutive days.
\<close>

definition temp_schema :: schema where
  "temp_schema = [(''temperature'', \<lparr>primary = ''temp'', supporting = [], comparison = []\<rparr>)]"

definition same_day_df :: dataframe where
  "same_day_df = \<lparr>df_columns = [''temp''],
                   df_rows = [day_row 1 (\<lambda>c. 10), day_row 1 (\<lambda>c. 12)]\<rparr>"

definition two_day_df :: dataframe where
  "two_day_df = \<lparr>df_columns = [''temp''],
                  df_rows = [day_row 1 (\<lambda>c. 10), day_row 2 (\<lambda>c. 12)]\<rparr>"

text \<open>
  Tables for the coefficient of variation: a single row, two equal rows, and three rows of
  mean zero.
\<close>

definition one_row_df :: dataframe where
  "one_row_df = \<lparr>df_columns = [''temp''], df_rows = [day_row 1 (\<lambda>c. 15)]\<rparr>"

definition const_df :: dataframe where
  "const_df = \<lparr>df_columns = [''temp''],
                df_rows = [day_row 1 (\<lambda>c. 15), day_row 2 (\<lambda>c. 15)]\<rparr>"

definition zero_mean_df :: dataframe where
  "zero_mean_df = \<lparr>df_columns = [''temp''],
                    df_rows = [day_row 1 (\<lambda>c. -1), day_row 2 (\<lambda>c. 0), day_row 3 (\<lambda>c. 1)]\<rparr>"

text \<open>
  A bundle with the given summary whose trend and yearly comparison are both unremarkable.
\<close>

definition calm_group :: "summary_stats \<Rightarrow> group_stats" where
  "calm_group s =
    \<lparr>g_summary = s,
     g_range = None,
     g_trend = \<lparr>slope = Fl (1/100), r_value = Fl (1/10), r_squared = Fl (1/100),
                 p_value = Fl (1/2), direction = ''increasing''\<rparr>,
     g_seasonal = None,
     g_yearly = None,
     g_extremes = None,
     g_optional_features = None\<rparr>"

text \<open>
  The tests that \<open>_is_variable_notable\<close> makes after the one on the coefficient of
  variation: the trend test and the yearly test.
\<close>

definition notable_otherwise :: "config \<Rightarrow> group_stats \<Rightarrow> bool" where
  "notable_otherwise cfg var_stats =
    (gt_f (r_squared (g_trend var_stats)) (r2_threshold cfg) \<or>
     (case g_yearly var_stats of
        None \<Rightarrow> False
      | Some yearly \<Rightarrow> gt_f (abs_f (highest_zscore yearly)) (extreme_threshold cfg)))"

section \<open>Template realizer\<close>

text \<open>
  The realizer works on dictionaries, so a payload is handed to it as a Python value:
  every record of the statistics bundle becomes the dictionary of \<open>dataset_analyzer.py\<close>
  it stands for, with the keys of the source.
\<close>

datatype pyval =
    PNone
  | PBool bool
  | PInt int
  | PFloat pyfloat
  | PStr string
  | PDate date
  | PNaT
  | PDict "(string \<times> pyval) list"
  | PList "pyval list"

definition opt_py :: "('a \<Rightarrow> pyval) \<Rightarrow> 'a option \<Rightarrow> pyval" where
  "opt_py f x = (case x of None \<Rightarrow> PNone | Some v \<Rightarrow> f v)"

definition opt_item :: "string \<Rightarrow> ('a \<Rightarrow> pyval) \<Rightarrow> 'a option \<Rightarrow> (string \<times> pyval) list" where
  "opt_item k f x = (case x of None \<Rightarrow> [] | Some v \<Rightarrow> [(k, f v)])"

definition real_py :: "real \<Rightarrow> pyval" where
  "real_py x = PFloat (Fl x)"

definition date_py :: "date option \<Rightarrow> pyval" where
  "date_py d = (case d of None \<Rightarrow> PNaT | Some v \<Rightarrow> PDate v)"

definition basic_py :: "basic_info \<Rightarrow> pyval" where
  "basic_py b =
    PDict [(''start_date'', date_py (start_date b)), (''end_date'', date_py (end_date b)),
           (''n_records'', PInt (int (n_records b))), (''station'', PStr (station b))]"

definition summary_py :: "summary_stats \<Rightarrow> pyval" where
  "summary_py s =
    PDict [(''mean'', PFloat (summary_mean s)), (''std'', PFloat (summary_std s)),
           (''min'', PFloat (summary_min s)), (''max'', PFloat (summary_max s)),
           (''coefficient_of_variation'', PFloat (coefficient_of_variation s))]"

definition range_py :: "range_stats \<Rightarrow> pyval" where
  "range_py r =
    PDict (opt_item ''absolute_min'' PFloat (absolute_min r) @
           opt_item ''absolute_max'' PFloat (absolute_max r))"

definition trend_py :: "trend_stats \<Rightarrow> pyval" where
  "trend_py t =
    PDict [(''slope'', PFloat (slope t)), (''r_value'', PFloat (r_value t)),
           (''r_squared'', PFloat (r_squared t)), (''p_value'', PFloat (p_value t)),
           (''direction'', PStr (direction t))]"

definition seasonal_py :: "seasonal_stats \<Rightarrow> pyval" where
  "seasonal_py s =
    PDict [(''summer'', opt_py real_py (summer s)), (''winter'', opt_py real_py (winter s)),
           (''spring'', opt_py real_py (spring s)), (''fall'', opt_py real_py (fall s)),
           (''range'', real_py (seasonal_range s))]"

definition yearly_py :: "yearly_stats \<Rightarrow> pyval" where
  "yearly_py y =
    PDict [(''yearly_mean'', real_py (yearly_mean y)), (''yearly_std'', PFloat (yearly_std y)),
           (''highest_year'', PInt (highest_year y)), (''highest_value'', real_py (highest_value y)),
           (''lowest_year'', PInt (lowest_year y)), (''lowest_value'', real_py (lowest_value y)),
           (''highest_zscore'', PFloat (highest_zscore y)),
           (''lowest_zscore'', PFloat (lowest_zscore y))]"

definition event_py :: "extreme_event \<Rightarrow> pyval" where
  "event_py e = PDict [(''value'', real_py (event_value e)), (''date'', PDate (event_date e))]"

definition extremes_py :: "extremes_stats \<Rightarrow> pyval" where
  "extremes_py e =
    PDict (opt_item ''highest'' event_py (highest e) @ opt_item ''lowest'' event_py (lowest e))"

definition features_py :: "real_feel_diff \<Rightarrow> pyval" where
  "features_py f =
    PDict [(''real_feel_diff'',
            PDict [(''avg_difference'', real_py (avg_difference f)),
                   (''is_negative'', PBool (is_negative f))])]"

definition group_py :: "group_stats \<Rightarrow> pyval" where
  "group_py g =
    PDict [(''summary'', summary_py (g_summary g)),
           (''range'', opt_py range_py (g_range g)),
           (''trend'', trend_py (g_trend g)),
           (''seasonal'', opt_py seasonal_py (g_seasonal g)),
           (''yearly'', opt_py yearly_py (g_yearly g)),
           (''extremes'', opt_py extremes_py (g_extremes g)),
           (''optional_features'', opt_py features_py (g_optional_features g))]"

definition trending_py :: "trending_var \<Rightarrow> pyval" where
  "trending_py v =
    PDict [(''name'', PStr (tv_name v)), (''r_squared'', PFloat (tv_r_squared v)),
           (''direction'', PStr (tv_direction v)), (''slope'', PFloat (tv_slope v))]"

definition max_corr_py :: "max_corr_vars option \<Rightarrow> pyval" where
  "max_corr_py m =
    (case m of
       None \<Rightarrow> PDict []
     | Some v \<Rightarrow> PDict [(''variables'', PStr (variables v)),
                         (''correlation'', PFloat (mc_correlation v)),
                         (''relationship'', PStr (mc_relationship v))])"

fun payload_py :: "payload \<Rightarrow> pyval" where
  "payload_py (Overview b) = (case b of BasicInfo i \<Rightarrow> basic_py i | BasicGroup g \<Rightarrow> group_py g)"
| "payload_py (GroupP g) = group_py g"
| "payload_py (TrendP t) = trend_py t"
| "payload_py (SeasonalP s) = seasonal_py s"
| "payload_py (YearlyP y) = yearly_py y"
| "payload_py (ExtremesP e) = extremes_py e"
| "payload_py (OtherP vs) = PList (map (\<lambda>v. PList [PStr (fst v), group_py (snd v)]) vs)"
| "payload_py (PatternTrendsP ts) = PList (map trending_py ts)"
| "payload_py (CorrelationP m) = max_corr_py m"

subsection \<open>Dictionary access\<close>

definition bind_err :: "error + 'a \<Rightarrow> ('a \<Rightarrow> error + 'b) \<Rightarrow> error + 'b" where
  "bind_err m f = (case m of Inl e \<Rightarrow> Inl e | Inr x \<Rightarrow> f x)"

text \<open>\<open>data[key]\<close>, \<open>key in data\<close> and the truth value of a Python value.\<close>

definition getitem :: "pyval \<Rightarrow> string \<Rightarrow> error + pyval" where
  "getitem data k =
    (case data of
       PDict items \<Rightarrow> (case map_of items k of None \<Rightarrow> Inl (KeyError k) | Some v \<Rightarrow> Inr v)
     | _ \<Rightarrow> Inl TypeError)"

definition py_in :: "string \<Rightarrow> pyval \<Rightarrow> error + bool" where
  "py_in k data =
    (case data of
       PDict items \<Rightarrow> Inr (map_of items k \<noteq> None)
     | PList vs \<Rightarrow> Inr (PStr k \<in> set vs)
     | PStr s \<Rightarrow> Inr (sublist k s)
     | _ \<Rightarrow> Inl TypeError)"

definition truthy :: "pyval \<Rightarrow> bool" where
  "truthy v =
    (case v of
       PNone \<Rightarrow> False
     | PBool b \<Rightarrow> b
     | PInt i \<Rightarrow> i \<noteq> 0
     | PFloat f \<Rightarrow> ne_f f 0
     | PStr s \<Rightarrow> s \<noteq> []
     | PDate d \<Rightarrow> True
     | PNaT \<Rightarrow> True
     | PDict items \<Rightarrow> items \<noteq> []
     | PList vs \<Rightarrow> vs \<noteq> [])"

definition as_float :: "pyval \<Rightarrow> error + pyfloat" where
  "as_float v =
    (case v of
       PFloat f \<Rightarrow> Inr f
     | PInt i \<Rightarrow> Inr (Fl (real_of_int i))
     | PBool b \<Rightarrow> Inr (Fl (if b then 1 else 0))
     | _ \<Rightarrow> Inl TypeError)"

subsection \<open>Templates\<close>

text \<open>
  A template is the sequence of its literal pieces and replacement fields; a field has a
  name and either no format specification or \<open>.nf\<close>. How a float is printed with \<open>n\<close>
  decimals, how a date is printed by \<open>strftime\<close> and how a value is printed by \<open>str\<close> are
  parameters of the model.
\<close>

datatype format_spec = Plain | Fixed nat

fun decimal :: "nat \<Rightarrow> string" where
  "decimal n =
     (if n < 10 then [''0123456789'' ! n]
      else decimal (n div 10) @ [''0123456789'' ! (n mod 10)])"

declare decimal.simps [simp del]

datatype piece = Lit string | Field string format_spec

type_synonym template = "piece list"

record renderer =
  render_fixed :: "nat \<Rightarrow> pyfloat \<Rightarrow> string"
  render_date :: "date \<Rightarrow> string"
  render_str :: "pyval \<Rightarrow> string"

definition templates :: "(string \<times> template list) list" where
  "templates =
    [(''overview'',
      [[Lit ''This analysis covers daily weather observations from '', Field ''station'' Plain,
        Lit '', spanning '', Field ''start_date'' Plain, Lit '' to '', Field ''end_date'' Plain,
        Lit ''.'']]),
     (''temperature_summary'',
      [[Lit ''Temperatures averaged '', Field ''mean'' (Fixed 1),
        Lit (degree_sign @ ''C, ranging from ''), Field ''absolute_min'' (Fixed 1),
        Lit (degree_sign @ ''C to ''), Field ''absolute_max'' (Fixed 1),
        Lit (degree_sign @ ''C.'')],
       [Lit ''Over this period, temperatures ranged from '', Field ''absolute_min'' (Fixed 1),
        Lit (degree_sign @ ''C to ''), Field ''absolute_max'' (Fixed 1),
        Lit (degree_sign @ ''C, with a mean of ''), Field ''mean'' (Fixed 1),
        Lit (degree_sign @ ''C.'')]]),
     (''temperature_trend'',
      [[Lit ''Temperature '', Field ''trend_desc'' Plain, Lit '' over the study period.'']]),
     (''temperature_seasonal'',
      [[Lit ''Seasonally, summer months averaged '', Field ''summer'' (Fixed 1),
        Lit (degree_sign @ ''C while winter months averaged ''), Field ''winter'' (Fixed 1),
        Lit (degree_sign @ ''C, showing a ''), Field ''range'' (Fixed 1),
        Lit (degree_sign @ ''C seasonal variation.'')]]),
     (''temperature_yearly'',
      [[Field ''highest_year'' Plain, Lit '' was the warmest year at '',
        Field ''highest_value'' (Fixed 1), Lit (degree_sign @ ''C, while ''),
        Field ''lowest_year'' Plain, Lit '' was the coolest at '',
        Field ''lowest_value'' (Fixed 1), Lit (degree_sign @ ''C.'')]]),
     (''temperature_extremes'',
      [[Lit ''The hottest temperature recorded was '', Field ''highest_value'' (Fixed 1),
        Lit (degree_sign @ ''C on ''), Field ''highest_date'' Plain,
        Lit '', and the coldest was '', Field ''lowest_value'' (Fixed 1),
        Lit (degree_sign @ ''C on ''), Field ''lowest_date'' Plain, Lit ''.'']]),
     (''precipitation_summary'',
      [[Lit ''Precipitation totaled '', Field ''total'' (Fixed 1),
        Lit '' mm over the period, averaging '', Field ''annual_avg'' (Fixed 1),
        Lit '' mm annually.''],
       [Lit ''Annual precipitation averaged '', Field ''annual_avg'' (Fixed 1),
        Lit '' mm, with a total of '', Field ''total'' (Fixed 1), Lit '' mm recorded.'']]),
     (''precipitation_trend'',
      [[Lit ''Precipitation '', Field ''trend_desc'' Plain, Lit '' over time.'']]),
     (''precipitation_extremes'',
      [[Lit ''The heaviest single-day precipitation was '', Field ''highest_value'' (Fixed 2),
        Lit '' mm on '', Field ''highest_date'' Plain, Lit ''.'']]),
     (''other_conditions_combined'',
      [[Lit ''Other conditions included '', Field ''conditions_desc'' Plain, Lit ''.'']]),
     (''pattern_trends_multi'',
      [[Lit ''Notably, '', Field ''var1'' Plain, Lit '' and '', Field ''var2'' Plain,
        Lit '' both showed strong trends over the period.'']]),
     (''pattern_correlation'',
      [[Lit ''The variables '', Field ''vars'' Plain,
        Lit '' were the strongest correlated, having a '', Field ''relationship'' Plain,
        Lit '' relationship.'']])]"

text \<open>
  \<open>str.format\<close> goes through the template from left to right: a field whose name is not
  among the keyword arguments raises a KeyError, a value that does not accept the format
  specification a TypeError (a string given \<open>.nf\<close>: a ValueError). A date takes the
  specification as a \<open>strftime\<close> format, which prints the text \<open>.nf\<close> itself; NaT does
  not support \<open>strftime\<close> and raises a ValueError.
\<close>

definition format_value :: "renderer \<Rightarrow> format_spec \<Rightarrow> pyval \<Rightarrow> error + string" where
  "format_value R spec v =
    (case spec of
       Plain \<Rightarrow> Inr (case v of PStr s \<Rightarrow> s | _ \<Rightarrow> render_str R v)
     | Fixed n \<Rightarrow>
         (case v of
            PFloat f \<Rightarrow> Inr (render_fixed R n f)
          | PInt i \<Rightarrow> Inr (render_fixed R n (Fl (real_of_int i)))
          | PBool b \<Rightarrow> Inr (render_fixed R n (Fl (if b then 1 else 0)))
          | PStr s \<Rightarrow> Inl ValueError
          | PDate d \<Rightarrow> Inr (''.'' @ decimal n @ ''f'')
          | PNaT \<Rightarrow> Inl ValueError
          | _ \<Rightarrow> Inl TypeError))"

fun format_template :: "renderer \<Rightarrow> template \<Rightarrow> (string \<times> pyval) list \<Rightarrow> error + string" where
  "format_template R [] kwargs = Inr []"
| "format_template R (Lit s # ps) kwargs =
     bind_err (format_template R ps kwargs) (\<lambda>rest. Inr (s @ rest))"
| "format_template R (Field name spec # ps) kwargs =
     (case map_of kwargs name of
        None \<Rightarrow> Inl (KeyError name)
      | Some v \<Rightarrow>
          bind_err (format_value R spec v)
            (\<lambda>text. bind_err (format_template R ps kwargs) (\<lambda>rest. Inr (text @ rest))))"

subsection \<open>Preparing the data of a fact\<close>

definition as_dict :: "pyval \<Rightarrow> error + (string \<times> pyval) list" where
  "as_dict v = (case v of PDict items \<Rightarrow> Inr items | _ \<Rightarrow> Inl AttributeError)"

text \<open>\<open>formatted[k] = format_date(formatted[k])\<close>, done when the key is there.\<close>

definition format_date_item ::
  "renderer \<Rightarrow> string \<Rightarrow> (string \<times> pyval) list \<Rightarrow> error + (string \<times> pyval) list" where
  "format_date_item R k formatted =
    (case map_of formatted k of
       None \<Rightarrow> Inr formatted
     | Some v \<Rightarrow>
         (case v of
            PDate d \<Rightarrow> Inr (AList.update k (PStr (render_date R d)) formatted)
          | PNaT \<Rightarrow> Inl ValueError
          | _ \<Rightarrow> Inl AttributeError))"

definition temperature_summary_fields ::
  "pyval \<Rightarrow> (string \<times> pyval) list \<Rightarrow> error + (string \<times> pyval) list" where
  "temperature_summary_fields data formatted =
    bind_err (py_in ''range'' data) (\<lambda>has_range.
    bind_err (if has_range then bind_err (getitem data ''range'') (\<lambda>r. Inr (truthy r))
              else Inr False) (\<lambda>use_range.
    bind_err
      (if use_range then
         bind_err (getitem data ''range'') (\<lambda>r.
         bind_err (as_dict r) (\<lambda>range_items.
         bind_err (getitem data ''summary'') (\<lambda>s.
         bind_err (getitem s ''min'') (\<lambda>summary_min_v.
         let formatted = AList.update ''absolute_min''
               (case map_of range_items ''absolute_min'' of
                  None \<Rightarrow> summary_min_v | Some v \<Rightarrow> v) formatted
         in
         bind_err (getitem data ''summary'') (\<lambda>s.
         bind_err (getitem s ''max'') (\<lambda>summary_max_v.
         Inr (AList.update ''absolute_max''
               (case map_of range_items ''absolute_max'' of
                  None \<Rightarrow> summary_max_v | Some v \<Rightarrow> v) formatted)))))))
       else
         bind_err (getitem data ''summary'') (\<lambda>s.
         bind_err (getitem s ''min'') (\<lambda>summary_min_v.
         bind_err (getitem s ''max'') (\<lambda>summary_max_v.
         Inr (AList.update ''absolute_max'' summary_max_v
               (AList.update ''absolute_min'' summary_min_v formatted))))))
      (\<lambda>formatted.
    bind_err (getitem data ''summary'') (\<lambda>s.
    bind_err (getitem s ''mean'') (\<lambda>mean_v.
    Inr (AList.update ''mean'' mean_v formatted))))))"

text \<open>
  \<open>describe_trend\<close> on values of a dictionary: the comparison of \<open>r_squared\<close> comes first,
  and the slope is looked at only when the stable phrase is not returned.
\<close>

definition describe_trend_py :: "pyval \<Rightarrow> pyval \<Rightarrow> string \<Rightarrow> error + string" where
  "describe_trend_py slope_v r_squared_v var_type =
    bind_err (as_float r_squared_v) (\<lambda>r2.
    if lt_f r2 0.2 then Inr (describe_trend NaN r2 var_type)
    else bind_err (as_float slope_v) (\<lambda>sl. Inr (describe_trend sl r2 var_type)))"

definition trend_fields ::
  "string \<Rightarrow> pyval \<Rightarrow> (string \<times> pyval) list \<Rightarrow> error + (string \<times> pyval) list" where
  "trend_fields var_type data formatted =
    bind_err (getitem data ''slope'') (\<lambda>slope_v.
    bind_err (getitem data ''r_squared'') (\<lambda>r_squared_v.
    bind_err (describe_trend_py slope_v r_squared_v var_type) (\<lambda>trend_desc.
    Inr (AList.update ''trend_desc'' (PStr trend_desc) formatted))))"

definition precipitation_summary_fields ::
  "pyval \<Rightarrow> (string \<times> pyval) list \<Rightarrow> error + (string \<times> pyval) list" where
  "precipitation_summary_fields data formatted =
    bind_err (getitem data ''summary'') (\<lambda>s.
    bind_err (getitem s ''mean'') (\<lambda>mean_v.
    bind_err (as_float mean_v) (\<lambda>m.
    bind_err (as_float (case map_of formatted ''n_records'' of
                          None \<Rightarrow> PInt 1826 | Some v \<Rightarrow> v)) (\<lambda>n.
    Inr (AList.update ''annual_avg'' (PFloat (mul_f m (Fl 365.25)))
          (AList.update ''total'' (PFloat (mul_f m n)) formatted))))))"

definition extreme_fields ::
  "renderer \<Rightarrow> string \<Rightarrow> pyval \<Rightarrow> (string \<times> pyval) list \<Rightarrow> error + (string \<times> pyval) list" where
  "extreme_fields R which data formatted =
    bind_err (py_in which data) (\<lambda>has.
    if has then
      bind_err (getitem data which) (\<lambda>ev.
      bind_err (getitem ev ''value'') (\<lambda>value_v.
      bind_err (getitem ev ''date'') (\<lambda>date_v.
      (case date_v of
         PDate d \<Rightarrow>
           Inr (AList.update (which @ ''_date'') (PStr (render_date R d))
                 (AList.update (which @ ''_value'') value_v formatted))
       | PNaT \<Rightarrow> Inl ValueError
       | _ \<Rightarrow> Inl AttributeError))))
    else Inr formatted)"

definition replace_char :: "char \<Rightarrow> char \<Rightarrow> string \<Rightarrow> string" where
  "replace_char a b s = map (\<lambda>c. if c = a then b else c) s"

definition correlation_fields ::
  "pyval \<Rightarrow> (string \<times> pyval) list \<Rightarrow> error + (string \<times> pyval) list" where
  "correlation_fields data formatted =
    bind_err (getitem data ''correlation'') (\<lambda>corr.
    bind_err (getitem data ''relationship'') (\<lambda>rel.
    let formatted = AList.update ''relationship''
          (PStr (if rel = PStr ''inverse'' then ''inverse'' else ''positive'')) formatted
    in
    bind_err (getitem data ''variables'') (\<lambda>vars.
    (case vars of
       PStr s \<Rightarrow> Inr (AList.update ''vars'' (PStr (replace_char CHR ''_'' CHR '' '' s)) formatted)
     | PDate d \<Rightarrow> Inl TypeError
     | PNaT \<Rightarrow> Inr (AList.update ''vars'' PNaT formatted)
     | _ \<Rightarrow> Inl AttributeError))))"

text \<open>
  \<open>_prepare_data\<close>: the copy of the payload (an empty dictionary when the payload is not
  one), then the blocks of the method in their order. Every \<open>data[...]\<close> in them can raise.
\<close>

definition prepare_data ::
  "renderer \<Rightarrow> string \<Rightarrow> pyval \<Rightarrow> error + (string \<times> pyval) list" where
  "prepare_data R fact_type data =
    (let formatted = (case data of PDict items \<Rightarrow> items | _ \<Rightarrow> [])
     in
     bind_err (format_date_item R ''start_date'' formatted) (\<lambda>formatted.
     bind_err (format_date_item R ''end_date'' formatted) (\<lambda>formatted.
     bind_err (if fact_type = ''temperature_summary''
               then temperature_summary_fields data formatted else Inr formatted) (\<lambda>formatted.
     bind_err (if fact_type = ''temperature_trend''
               then trend_fields ''temperature'' data formatted else Inr formatted) (\<lambda>formatted.
     bind_err (if fact_type = ''precipitation_summary''
               then precipitation_summary_fields data formatted else Inr formatted) (\<lambda>formatted.
     bind_err (if fact_type = ''precipitation_trend''
               then trend_fields ''precipitation'' data formatted else Inr formatted) (\<lambda>formatted.
     bind_err (if sublist ''extremes'' fact_type
               then bind_err (extreme_fields R ''highest'' data formatted)
                      (extreme_fields R ''lowest'' data)
               else Inr formatted) (\<lambda>formatted.
     (if fact_type = ''pattern_correlation''
      then correlation_fields data formatted else Inr formatted)))))))))"

subsection \<open>Realizing a fact\<close>

text \<open>
  \<open>realize\<close>, with \<open>r\<close> the number drawn by \<open>random.choice\<close>. The call of \<open>_prepare_data\<close>
  stands before the \<open>try\<close>; only a KeyError of \<open>template.format\<close> is caught.
\<close>

definition realize :: "renderer \<Rightarrow> nat \<Rightarrow> string \<Rightarrow> pyval \<Rightarrow> error + string" where
  "realize R r fact_type data =
    (case map_of templates fact_type of
       None \<Rightarrow> Inr []
     | Some ts \<Rightarrow>
         let template = ts ! (r mod length ts)
         in bind_err (prepare_data R fact_type data) (\<lambda>formatted_data.
              (case format_template R template formatted_data of
                 Inl (KeyError k) \<Rightarrow> Inr []
               | Inl e \<Rightarrow> Inl e
               | Inr text \<Rightarrow> Inr text)))"

definition join_with :: "string \<Rightarrow> string list \<Rightarrow> string" where
  "join_with sep xs = (case xs of [] \<Rightarrow> [] | x # rest \<Rightarrow> foldl (\<lambda>acc s. acc @ sep @ s) x rest)"

definition describe_condition :: "renderer \<Rightarrow> string \<times> group_stats \<Rightarrow> string" where
  "describe_condition R v =
    (let var_name = fst v;
         mean_val = render_fixed R 1 (summary_mean (g_summary (snd v)))
     in if var_name = ''wind_speed'' then ''wind speed averaging '' @ mean_val @ '' kmh''
        else if var_name = ''rain'' then ''rain averaging '' @ mean_val @ '' mm''
        else if var_name = ''snow'' then ''snow averaging '' @ mean_val @ '' cm''
        else if var_name = ''relative_humidity''
        then ''relative humidity averaging '' @ mean_val @ ''%''
        else replace_char CHR ''_'' CHR '' '' var_name @ '' averaging '' @ mean_val)"

definition realize_combined_conditions ::
  "renderer \<Rightarrow> (string \<times> group_stats) list \<Rightarrow> error + string" where
  "realize_combined_conditions R secondary_vars =
    (let descriptions = map (describe_condition R) secondary_vars
     in if length descriptions = 1
        then Inr (''Other conditions included '' @ descriptions ! 0 @ ''.'')
        else if length descriptions = 2
        then Inr (''Other conditions included '' @ descriptions ! 0 @ '' and '' @
                  descriptions ! 1 @ ''.'')
        else if descriptions = [] then Inl IndexError
        else Inr (''Other conditions included '' @ join_with '', '' (butlast descriptions) @
                  '', and '' @ last descriptions @ ''.''))"

section \<open>Summarizer\<close>

text \<open>
  The loop of \<open>generate_summary\<close> over the planner's facts. \<open>rnd\<close> gives the successive
  draws of \<open>random.choice\<close> and \<open>n\<close> counts the draws made so far: \<open>realize\<close> draws once for
  every fact type that has templates. An exception ends the loop.
\<close>

fun render_facts ::
  "renderer \<Rightarrow> (nat \<Rightarrow> nat) \<Rightarrow> nat \<Rightarrow> fact list \<Rightarrow> string list \<Rightarrow> error + string list" where
  "render_facts R rnd n [] sentences = Inr sentences"
| "render_facts R rnd n (f # rest) sentences =
     bind_err
       (if fst f = ''other_conditions''
        then (case snd f of OtherP vs \<Rightarrow> realize_combined_conditions R vs | _ \<Rightarrow> Inl TypeError)
        else realize R (rnd n) (fst f) (payload_py (snd f)))
       (\<lambda>sentence.
          render_facts R rnd
            (if fst f = ''other_conditions'' \<or> map_of templates (fst f) = None then n else Suc n)
            rest
            (if sentence = [] then sentences else sentences @ [sentence]))"

definition summary_text :: "renderer \<Rightarrow> (nat \<Rightarrow> nat) \<Rightarrow> fact list \<Rightarrow> error + string" where
  "summary_text R rnd content =
     bind_err (render_facts R rnd 0 content []) (\<lambda>sentences. Inr (join_with '' '' sentences))"

text \<open>
  \<open>generate_summary\<close> after the table has been loaded: analysis with the schema of the
  summarizer, planning, realization, joining.
\<close>

definition generate_summary ::
  "renderer \<Rightarrow> (nat \<Rightarrow> nat) \<Rightarrow> numerics \<Rightarrow> config \<Rightarrow> string \<Rightarrow> dataframe \<Rightarrow> error + string" where
  "generate_summary R rnd lib cfg station_name df =
     bind_err (analyze lib df station_name summarizer_groups) (\<lambda>stats.
       summary_text R rnd (select_content cfg stats))"

subsection \<open>Facts that can contribute a sentence, and example values\<close>

text \<open>
  The loop of \<open>generate_summary\<close> can get a sentence for a fact in two ways: from
  \<open>realize\<close>, when the template registry has the fact type as a key, and from
  \<open>realize_combined_conditions\<close>, when the fact type is \<open>other_conditions\<close>, which the
  registry does not have.
\<close>

definition in_registry :: "string \<Rightarrow> bool" where
  "in_registry fact_type = (map_of templates fact_type \<noteq> None)"

definition may_contribute :: "fact \<Rightarrow> bool" where
  "may_contribute f = (fst f = ''other_conditions'' \<or> in_registry (fst f))"

text \<open>
  A renderer, a trend entry and a seasonal bundle for the examples, and statistics in which
  the wind speed is notable by its trend.
\<close>

definition wind_stats :: statistics where
  "wind_stats = \<lparr>basic = demo_basic, groups = [(''wind_speed'', demo_group)], patterns = None\<rparr>"


definition plain_renderer :: renderer where
  "plain_renderer = \<lparr>render_fixed = (\<lambda>n f. ''0.0''), render_date = (\<lambda>d. ''January 01, 2020''),
                      render_str = (\<lambda>v. ''2020'')\<rparr>"

definition demo_trending :: trending_var where
  "demo_trending = \<lparr>tv_name = ''temperature'', tv_r_squared = Fl (81/100),
                     tv_direction = ''increasing'', tv_slope = Fl (8/10)\<rparr>"

definition demo_seasonal :: seasonal_stats where
  "demo_seasonal = \<lparr>summer = Some 3, winter = Some 1, spring = Some 2, fall = Some 2,
                     seasonal_range = 2\<rparr>"

section \<open>Properties of the lexicalizer\<close>

text \<open>
  C3, as stated, at a rising temperature trend: the claim expects the direction word
  "warming", \<open>lexicalizer.py\<close> answers "showed significant increasing".
\<close>

theorem describe_trend_direction_counterexample:
  "\<not> suffix (claimed_direction ''temperature'' (Fl 1))
             (describe_trend (Fl 1) (Fl (1/2)) ''temperature'')"
  by (simp add: describe_trend_def claimed_direction_def suffix_to_prefix)

text \<open>
  C3, amended: below an r_squared of 0.2 both deployments return the stable phrase whatever
  the slope and the kind. Otherwise temperature gets a tier by 0.5/0.2 and precipitation a
  tier by 2/1; the direction word is increasing/decreasing for temperature and
  precipitation in \<open>lexicalizer.py\<close>, warming/cooling for temperature in \<open>ai.py\<close>, and any
  other kind gets the bare word increased/decreased with no tier. A slope that is not
  positive (zero included) takes the second word of each pair.
\<close>

theorem describe_trend_cases:
  "(lt_f r2 0.2 \<longrightarrow>
      describe_trend sl r2 kind = ''remained relatively stable'' \<and>
      describe_trend_ai sl r2 kind = ''remained relatively stable'') \<and>
   (\<not> lt_f r2 0.2 \<longrightarrow>
      describe_trend sl r2 ''temperature'' =
        ''showed '' @ tier 0.5 0.2 ''significant'' ''moderate'' ''slight'' sl @ '' '' @
        (if gt_f sl 0 then ''increasing'' else ''decreasing'') \<and>
      describe_trend_ai sl r2 ''temperature'' =
        ''showed '' @ tier 0.5 0.2 ''significant'' ''moderate'' ''slight'' sl @ '' '' @
        claimed_direction ''temperature'' sl \<and>
      describe_trend sl r2 ''precipitation'' =
        tier 2 1 ''substantially'' ''moderately'' ''slightly'' sl @ '' '' @
        claimed_direction ''precipitation'' sl \<and>
      describe_trend_ai sl r2 ''precipitation'' =
        tier 2 1 ''substantially'' ''moderately'' ''slightly'' sl @ '' '' @
        claimed_direction ''precipitation'' sl \<and>
      (kind \<noteq> ''temperature'' \<and> kind \<noteq> ''precipitation'' \<longrightarrow>
         describe_trend sl r2 kind = (if gt_f sl 0 then ''increased'' else ''decreased'') \<and>
         describe_trend_ai sl r2 kind = (if gt_f sl 0 then ''increased'' else ''decreased'')))"
  by (simp add: describe_trend_def describe_trend_ai_def tier_def claimed_direction_def Let_def)

theorem describe_trend_cases_witness:
  "lt_f (Fl (1/10)) 0.2 \<and>
   describe_trend (Fl (-3)) (Fl (1/10)) ''temperature'' = ''remained relatively stable'' \<and>
   \<not> lt_f (Fl (9/10)) 0.2 \<and>
   describe_trend (Fl (3/10)) (Fl (9/10)) ''temperature'' = ''showed moderate increasing'' \<and>
   describe_trend_ai (Fl (3/10)) (Fl (9/10)) ''temperature'' = ''showed moderate warming'' \<and>
   describe_trend (Fl (-3)) (Fl (9/10)) ''precipitation'' = ''substantially decreasing'' \<and>
   ''wind_speed'' \<noteq> ''temperature'' \<and> ''wind_speed'' \<noteq> ''precipitation'' \<and>
   describe_trend (Fl 0) (Fl (9/10)) ''wind_speed'' = ''decreased''"
  using describe_trend_cases [of "Fl (1/10)" "Fl (-3)" "''temperature''"]
        describe_trend_cases [of "Fl (9/10)" "Fl (3/10)" "''wind_speed''"]
        describe_trend_cases [of "Fl (9/10)" "Fl (-3)" "''wind_speed''"]
        describe_trend_cases [of "Fl (9/10)" "Fl 0" "''wind_speed''"]
  by (simp add: tier_def claimed_direction_def)

section \<open>Properties of the content planner\<close>

lemma ge_f_mono: "ge_f x t \<Longrightarrow> r \<le> t \<Longrightarrow> ge_f x r"
  by (cases x) auto

lemma primary_step_append:
  "primary_step cfg stats content v = content @ spec_primary_facts cfg stats v"
  by (simp add: primary_step_def spec_primary_facts_def is_trend_significant_def
      is_yearly_comparison_notable_def extremes_truthy_def Let_def
      split: option.splits)

lemma secondary_fold:
  "foldl (secondary_step cfg stats) acc vs =
     acc @ concat (map (\<lambda>v. case map_of (groups stats) v of
                                None \<Rightarrow> []
                              | Some g \<Rightarrow> if is_variable_notable cfg g then [(v, g)] else []) vs)"
  by (induction vs arbitrary: acc) (auto simp: secondary_step_def split: option.splits)

lemma select_content_parts:
  "select_content cfg stats =
     (''overview'', Overview (basic stats)) #
     spec_primary_facts cfg stats ''temperature'' @
     spec_primary_facts cfg stats ''precipitation'' @
     spec_other_conditions cfg stats @
     spec_pattern_facts stats"
proof -
  have "select_content cfg stats =
     (let content = [(''overview'', Overview (basic stats))] @
                    spec_primary_facts cfg stats ''temperature'' @
                    spec_primary_facts cfg stats ''precipitation'';
          secondary_vars = concat (map (\<lambda>v. case map_of (groups stats) v of
                                        None \<Rightarrow> []
                                      | Some g \<Rightarrow> if is_variable_notable cfg g then [(v, g)] else [])
                               secondary_names);
          content = (if secondary_vars \<noteq> [] then content @ [(''other_conditions'', OtherP secondary_vars)]
                    else content)
      in content @ spec_pattern_facts stats)"
    unfolding select_content_def secondary_fold secondary_names_def spec_pattern_facts_def
    by (simp add: primary_step_append Let_def split: option.splits)
  then show ?thesis
    by (simp add: spec_other_conditions_def Let_def)
qed

lemma other_no_trend: "filter is_trend_fact (spec_other_conditions cfg stats) = []"
  by (simp add: spec_other_conditions_def is_trend_fact_def Let_def suffix_to_prefix)

lemma other_no_yearly: "filter is_yearly_fact (spec_other_conditions cfg stats) = []"
  by (simp add: spec_other_conditions_def is_yearly_fact_def Let_def suffix_to_prefix)

lemma pattern_no_trend: "filter is_trend_fact (spec_pattern_facts stats) = []"
  by (simp add: spec_pattern_facts_def is_trend_fact_def suffix_to_prefix split: option.splits)

lemma pattern_no_yearly: "filter is_yearly_fact (spec_pattern_facts stats) = []"
  by (simp add: spec_pattern_facts_def is_yearly_fact_def suffix_to_prefix split: option.splits)

lemma primary_trend_count:
  "length (filter is_trend_fact (spec_primary_facts cfg stats v)) =
     (case map_of (groups stats) v of
        None \<Rightarrow> 0
      | Some g \<Rightarrow> if ge_f (r_squared (g_trend g)) (r2_threshold cfg) \<and>
                     lt_f (p_value (g_trend g)) (p_value_threshold cfg) then 1 else 0)"
  by (simp add: spec_primary_facts_def is_trend_fact_def suffix_to_prefix
      split: option.splits)

lemma primary_yearly_count:
  "length (filter is_yearly_fact (spec_primary_facts cfg stats v)) =
     (case map_of (groups stats) v of
        None \<Rightarrow> 0
      | Some g \<Rightarrow>
         (case g_yearly g of
            None \<Rightarrow> 0
          | Some y \<Rightarrow> if ge_f (abs_f (highest_zscore y)) (extreme_threshold cfg) \<or>
                         ge_f (abs_f (lowest_zscore y)) (extreme_threshold cfg) then 1 else 0))"
  by (simp add: spec_primary_facts_def is_yearly_fact_def suffix_to_prefix
      split: option.splits)

lemma primary_trend_antitone:
  assumes "r2_threshold cfg \<le> t"
  shows "length (filter is_trend_fact (spec_primary_facts (cfg\<lparr>r2_threshold := t\<rparr>) stats v))
       \<le> length (filter is_trend_fact (spec_primary_facts cfg stats v))"
  using assms by (auto simp: primary_trend_count split: option.splits dest: ge_f_mono)

lemma primary_yearly_antitone:
  assumes "extreme_threshold cfg \<le> t"
  shows "length (filter is_yearly_fact (spec_primary_facts (cfg\<lparr>extreme_threshold := t\<rparr>) stats v))
       \<le> length (filter is_yearly_fact (spec_primary_facts cfg stats v))"
  using assms by (auto simp: primary_yearly_count split: option.splits dest: ge_f_mono)

lemmas demo_defs =
  demo_cfg_def demo_basic_def demo_group_def demo_patterns_def demo_stats_def
  direct_pair_def inverse_pair_def

text \<open>
  C4: for a fixed statistics bundle, raising \<open>r2_threshold\<close> never increases the number of
  trend facts (facts of kind \<open><group>_trend\<close>) that \<open>select_content\<close> returns, and raising
  \<open>extreme_threshold\<close> never increases the number of yearly-comparison facts (kind
  \<open><group>_yearly\<close>).
\<close>

theorem threshold_monotonicity:
  "(r2_threshold cfg \<le> t \<longrightarrow>
      length (filter is_trend_fact (select_content (cfg\<lparr>r2_threshold := t\<rparr>) stats))
      \<le> length (filter is_trend_fact (select_content cfg stats))) \<and>
   (extreme_threshold cfg \<le> t \<longrightarrow>
      length (filter is_yearly_fact (select_content (cfg\<lparr>extreme_threshold := t\<rparr>) stats))
      \<le> length (filter is_yearly_fact (select_content cfg stats)))"
proof (intro conjI impI)
  assume le: "r2_threshold cfg \<le> t"
  show "length (filter is_trend_fact (select_content (cfg\<lparr>r2_threshold := t\<rparr>) stats))
      \<le> length (filter is_trend_fact (select_content cfg stats))"
    using primary_trend_antitone [OF le, of stats "''temperature''"]
          primary_trend_antitone [OF le, of stats "''precipitation''"]
    by (simp add: select_content_parts other_no_trend pattern_no_trend is_trend_fact_def
        suffix_to_prefix)
next
  assume le: "extreme_threshold cfg \<le> t"
  show "length (filter is_yearly_fact (select_content (cfg\<lparr>extreme_threshold := t\<rparr>) stats))
      \<le> length (filter is_yearly_fact (select_content cfg stats))"
    using primary_yearly_antitone [OF le, of stats "''temperature''"]
          primary_yearly_antitone [OF le, of stats "''precipitation''"]
    by (simp add: select_content_parts other_no_yearly pattern_no_yearly is_yearly_fact_def
        suffix_to_prefix)
qed

theorem threshold_monotonicity_witness:
  "r2_threshold demo_cfg \<le> 9/10 \<and>
   length (filter is_trend_fact (select_content (demo_cfg\<lparr>r2_threshold := 9/10\<rparr>) (demo_stats []))) = 0 \<and>
   length (filter is_trend_fact (select_content demo_cfg (demo_stats []))) = 1 \<and>
   extreme_threshold demo_cfg \<le> 3 \<and>
   length (filter is_yearly_fact (select_content (demo_cfg\<lparr>extreme_threshold := 3\<rparr>) (demo_stats []))) = 0 \<and>
   length (filter is_yearly_fact (select_content demo_cfg (demo_stats []))) = 1"
  using threshold_monotonicity [of demo_cfg "9/10" "demo_stats []"]
        threshold_monotonicity [of demo_cfg 3 "demo_stats []"]
  by (simp add: select_content_def primary_step_def secondary_step_def demo_defs
      is_trend_significant_def is_yearly_comparison_notable_def extremes_truthy_def
      is_trend_fact_def is_yearly_fact_def suffix_to_prefix)

text \<open>
  C6: \<open>select_content\<close> returns the overview fact first, then the facts of temperature, then
  those of precipitation; for a group that is present these are the summary fact, the trend
  fact if and only if r_squared is at least \<open>r2_threshold\<close> and p_value is below
  \<open>p_value_threshold\<close>, the seasonal fact if and only if the seasonal sub-bundle is there,
  the yearly fact if and only if one of the two yearly z-scores reaches \<open>extreme_threshold\<close>
  in absolute value, and the extremes fact if and only if the extremes sub-bundle is
  non-empty. The bundled secondary variables and the cross-variable facts follow.
\<close>

theorem select_content_order:
  "select_content cfg stats =
     (''overview'', Overview (basic stats)) #
     spec_primary_facts cfg stats ''temperature'' @
     spec_primary_facts cfg stats ''precipitation'' @
     spec_other_conditions cfg stats @
     spec_pattern_facts stats"
  by (rule select_content_parts)

theorem select_content_order_witness:
  "select_content demo_cfg (demo_stats [direct_pair]) =
     [(''overview'', Overview demo_basic),
      (''temperature_summary'', GroupP demo_group),
      (''temperature_trend'', TrendP (g_trend demo_group)),
      (''temperature_yearly'', YearlyP (the (g_yearly demo_group))),
      (''pattern_correlation'',
       CorrelationP (Some \<lparr>variables = ''temperature_and_rain'', mc_correlation = Fl (6/10),
                            mc_relationship = ''direct''\<rparr>))]"
  using select_content_order [of demo_cfg "demo_stats [direct_pair]"]
  by (simp add: spec_primary_facts_def spec_other_conditions_def spec_pattern_facts_def
      secondary_names_def is_variable_notable_def corr_step_def demo_defs)

text \<open>
  C1, evaluated on the code. With an empty correlations mapping the planner still emits a
  \<open>pattern_correlation\<close> fact, its payload the empty dictionary. With a single strongly
  negative pair the payload is again the empty dictionary, and with a direct pair of 0.6
  next to an inverse pair of -0.9 the payload is the direct pair: the scan compares signed
  values starting from 0. The selection by absolute strength gives no fact, the inverse
  pair, and the inverse pair.
\<close>

theorem pattern_correlation_signed_scan:
  "last (select_content demo_cfg (demo_stats [])) = (''pattern_correlation'', CorrelationP None) \<and>
   claimed_correlation_facts (demo_patterns []) = [] \<and>
   last (select_content demo_cfg (demo_stats [inverse_pair])) =
     (''pattern_correlation'', CorrelationP None) \<and>
   claimed_correlation_facts (demo_patterns [inverse_pair]) =
     [(''pattern_correlation'',
       CorrelationP (Some \<lparr>variables = ''temperature_and_snow'', mc_correlation = Fl (-9/10),
                            mc_relationship = ''inverse''\<rparr>))] \<and>
   last (select_content demo_cfg (demo_stats [direct_pair, inverse_pair])) =
     (''pattern_correlation'',
      CorrelationP (Some \<lparr>variables = ''temperature_and_rain'', mc_correlation = Fl (6/10),
                           mc_relationship = ''direct''\<rparr>)) \<and>
   claimed_correlation_facts (demo_patterns [direct_pair, inverse_pair]) =
     [(''pattern_correlation'',
       CorrelationP (Some \<lparr>variables = ''temperature_and_snow'', mc_correlation = Fl (-9/10),
                            mc_relationship = ''inverse''\<rparr>))]"
  by (simp add: select_content_parts spec_pattern_facts_def claimed_correlation_facts_def
      corr_step_def abs_corr_step_def demo_defs)

section \<open>Properties of the dataset analyzer\<close>

lemma std_number_mean_number: "series_std lib xs = Fl s \<Longrightarrow> \<exists>m. series_mean lib xs = Fl m"
  by (auto simp: series_std_def series_mean_def split: if_splits)

lemma notable_without_cv:
  "\<not> gt_f (coefficient_of_variation (g_summary g)) 0.6 \<Longrightarrow>
   is_variable_notable cfg g = notable_otherwise cfg g"
  by (auto simp: is_variable_notable_def notable_otherwise_def split: option.splits)

lemmas summary_eval =
  summarize_primary_def column_def in_columns_def col_values_def day_row_def
  series_mean_def series_std_def series_min_def series_max_def mean_of_def exact_std_def
  example_numerics_def

text \<open>
  C5, as stated, on a table of a single row: the primary column is constant and its mean
  is 15, the standard deviation pandas gives for one value is NaN, and the coefficient of
  variation is NaN, not 0.
\<close>

theorem cv_single_row_counterexample:
  "col_values one_row_df ''temp'' = [15] \<and>
   summarize_primary example_numerics one_row_df ''temp'' =
     Inr \<lparr>summary_mean = Fl 15, summary_std = NaN, summary_min = Fl 15, summary_max = Fl 15,
          coefficient_of_variation = NaN\<rparr>"
  by (simp add: summary_eval one_row_df_def)

text \<open>
  C5, amended: whatever numbers pandas computes for the mean and the standard deviation,
  the coefficient of variation in the summary of a primary column is exactly 0 when the
  computed mean is 0 or the computed standard deviation is 0. On a table of a single row
  the standard deviation is NaN, and with a standard deviation of NaN and a mean other than
  0 the coefficient of variation is NaN. In each of these cases the test \<open>CV > 0.6\<close> is
  false, and \<open>_is_variable_notable\<close> decides by its trend test and its yearly test alone.
\<close>

theorem cv_safety:
  assumes "summarize_primary lib df col = Inr s" and "g_summary g = s"
  shows "(summary_mean s = Fl 0 \<or> summary_std s = Fl 0 \<longrightarrow> coefficient_of_variation s = Fl 0) \<and>
         (length (df_rows df) = 1 \<longrightarrow> summary_std s = NaN) \<and>
         (summary_std s = NaN \<and> summary_mean s \<noteq> Fl 0 \<longrightarrow> coefficient_of_variation s = NaN) \<and>
         (summary_mean s = Fl 0 \<or> summary_std s = Fl 0 \<or> summary_std s = NaN \<longrightarrow>
            \<not> gt_f (coefficient_of_variation s) 0.6 \<and>
            is_variable_notable cfg g = notable_otherwise cfg g)"
proof -
  let ?xs = "col_values df col"
  from assms(1) have s: "s = \<lparr>summary_mean = series_mean lib ?xs,
              summary_std = series_std lib ?xs,
              summary_min = series_min ?xs,
              summary_max = series_max ?xs,
              coefficient_of_variation =
                (if ne_f (series_mean lib ?xs) 0
                 then div_f (series_std lib ?xs) (series_mean lib ?xs)
                 else Fl 0)\<rparr>"
    by (auto simp: summarize_primary_def column_def split: if_splits)
  have a: "coefficient_of_variation s = Fl 0" if "summary_mean s = Fl 0"
    using that by (simp add: s)
  have b: "coefficient_of_variation s = Fl 0" if "summary_std s = Fl 0"
  proof -
    from that have st: "series_std lib ?xs = Fl 0" by (simp add: s)
    then obtain m where m: "series_mean lib ?xs = Fl m"
      using std_number_mean_number by blast
    show ?thesis by (simp add: s st m)
  qed
  have c: "summary_std s = NaN" if "length (df_rows df) = 1"
    using that by (simp add: s series_std_def col_values_def)
  have d: "coefficient_of_variation s = NaN" if "summary_std s = NaN" "summary_mean s \<noteq> Fl 0"
  proof -
    from that have st: "series_std lib ?xs = NaN" and m: "series_mean lib ?xs \<noteq> Fl 0"
      by (simp_all add: s)
    from m have "ne_f (series_mean lib ?xs) 0"
      by (cases "series_mean lib ?xs") simp_all
    then show ?thesis by (simp add: s st)
  qed
  have e: "\<not> gt_f (coefficient_of_variation s) 0.6"
    if "summary_mean s = Fl 0 \<or> summary_std s = Fl 0 \<or> summary_std s = NaN"
  proof (cases "summary_mean s = Fl 0 \<or> summary_std s = Fl 0")
    case True
    with a b have "coefficient_of_variation s = Fl 0" by blast
    then show ?thesis by simp
  next
    case False
    with that d have "coefficient_of_variation s = NaN" by blast
    then show ?thesis by simp
  qed
  have f: "is_variable_notable cfg g = notable_otherwise cfg g"
    if "summary_mean s = Fl 0 \<or> summary_std s = Fl 0 \<or> summary_std s = NaN"
    using e [OF that] assms(2) by (intro notable_without_cv) simp
  from a b c d e f show ?thesis by blast
qed

theorem cv_safety_witness:
  "summarize_primary example_numerics const_df ''temp'' =
     Inr \<lparr>summary_mean = Fl 15, summary_std = Fl 0, summary_min = Fl 15, summary_max = Fl 15,
          coefficient_of_variation = Fl 0\<rparr> \<and>
   summarize_primary example_numerics zero_mean_df ''temp'' =
     Inr \<lparr>summary_mean = Fl 0, summary_std = Fl 1, summary_min = Fl (-1), summary_max = Fl 1,
          coefficient_of_variation = Fl 0\<rparr> \<and>
   length (df_rows one_row_df) = 1 \<and>
   summarize_primary example_numerics one_row_df ''temp'' =
     Inr \<lparr>summary_mean = Fl 15, summary_std = NaN, summary_min = Fl 15, summary_max = Fl 15,
          coefficient_of_variation = NaN\<rparr> \<and>
   \<not> is_variable_notable demo_cfg
       (calm_group \<lparr>summary_mean = Fl 15, summary_std = Fl 0, summary_min = Fl 15,
                    summary_max = Fl 15, coefficient_of_variation = Fl 0\<rparr>) \<and>
   \<not> is_variable_notable demo_cfg
       (calm_group \<lparr>summary_mean = Fl 0, summary_std = Fl 1, summary_min = Fl (-1),
                    summary_max = Fl 1, coefficient_of_variation = Fl 0\<rparr>) \<and>
   \<not> is_variable_notable demo_cfg
       (calm_group \<lparr>summary_mean = Fl 15, summary_std = NaN, summary_min = Fl 15,
                    summary_max = Fl 15, coefficient_of_variation = NaN\<rparr>)"
  using cv_safety [of example_numerics const_df "''temp''"
      "\<lparr>summary_mean = Fl 15, summary_std = Fl 0, summary_min = Fl 15, summary_max = Fl 15,
        coefficient_of_variation = Fl 0\<rparr>"
      "calm_group \<lparr>summary_mean = Fl 15, summary_std = Fl 0, summary_min = Fl 15,
                   summary_max = Fl 15, coefficient_of_variation = Fl 0\<rparr>" demo_cfg]
    cv_safety [of example_numerics zero_mean_df "''temp''"
      "\<lparr>summary_mean = Fl 0, summary_std = Fl 1, summary_min = Fl (-1), summary_max = Fl 1,
        coefficient_of_variation = Fl 0\<rparr>"
      "calm_group \<lparr>summary_mean = Fl 0, summary_std = Fl 1, summary_min = Fl (-1),
                   summary_max = Fl 1, coefficient_of_variation = Fl 0\<rparr>" demo_cfg]
    cv_safety [of example_numerics one_row_df "''temp''"
      "\<lparr>summary_mean = Fl 15, summary_std = NaN, summary_min = Fl 15, summary_max = Fl 15,
        coefficient_of_variation = NaN\<rparr>"
      "calm_group \<lparr>summary_mean = Fl 15, summary_std = NaN, summary_min = Fl 15,
                   summary_max = Fl 15, coefficient_of_variation = NaN\<rparr>" demo_cfg]
  by (simp add: summary_eval const_df_def zero_mean_df_def one_row_df_def
      notable_otherwise_def calm_group_def demo_cfg_def)

lemma argmax_scan_first:
  assumes "bi < length pre" "pre ! bi = b" "\<forall>x\<in>set pre. x \<le> b" "\<forall>j<bi. pre ! j < b"
  shows "argmax_scan xs (length pre) bi b < length (pre @ xs) \<and>
         (\<forall>x\<in>set (pre @ xs). x \<le> (pre @ xs) ! argmax_scan xs (length pre) bi b) \<and>
         (\<forall>j<argmax_scan xs (length pre) bi b.
             (pre @ xs) ! j < (pre @ xs) ! argmax_scan xs (length pre) bi b)"
  using assms
proof (induction xs arbitrary: pre bi b)
  case Nil
  then show ?case by simp
next
  case (Cons x xs)
  show ?case
  proof (cases "x > b")
    case True
    have "\<forall>j<length pre. (pre @ [x]) ! j < x"
    proof (intro allI impI)
      fix j assume "j < length pre"
      then have "pre ! j \<le> b" using Cons.prems(3) by simp
      with True \<open>j < length pre\<close> show "(pre @ [x]) ! j < x" by (simp add: nth_append)
    qed
    moreover have "\<forall>y\<in>set (pre @ [x]). y \<le> x"
      using Cons.prems(3) True by fastforce
    ultimately have
      "argmax_scan xs (length (pre @ [x])) (length pre) x < length ((pre @ [x]) @ xs) \<and>
       (\<forall>y\<in>set ((pre @ [x]) @ xs). y \<le> ((pre @ [x]) @ xs) ! argmax_scan xs (length (pre @ [x])) (length pre) x) \<and>
       (\<forall>j<argmax_scan xs (length (pre @ [x])) (length pre) x.
           ((pre @ [x]) @ xs) ! j < ((pre @ [x]) @ xs) ! argmax_scan xs (length (pre @ [x])) (length pre) x)"
      by (intro Cons.IH) (simp_all add: nth_append)
    with True show ?thesis by simp
  next
    case False
    have "bi < length (pre @ [x])" using Cons.prems(1) by simp
    moreover have "(pre @ [x]) ! bi = b" using Cons.prems(1,2) by (simp add: nth_append)
    moreover have "\<forall>y\<in>set (pre @ [x]). y \<le> b" using Cons.prems(3) False by auto
    moreover have "\<forall>j<bi. (pre @ [x]) ! j < b"
      using Cons.prems(1,4) by (simp add: nth_append)
    ultimately have
      "argmax_scan xs (length (pre @ [x])) bi b < length ((pre @ [x]) @ xs) \<and>
       (\<forall>y\<in>set ((pre @ [x]) @ xs). y \<le> ((pre @ [x]) @ xs) ! argmax_scan xs (length (pre @ [x])) bi b) \<and>
       (\<forall>j<argmax_scan xs (length (pre @ [x])) bi b.
           ((pre @ [x]) @ xs) ! j < ((pre @ [x]) @ xs) ! argmax_scan xs (length (pre @ [x])) bi b)"
      by (rule Cons.IH)
    with False show ?thesis by simp
  qed
qed

lemma idxmax_first:
  assumes "idxmax xs = Inr i"
  shows "i < length xs \<and> xs ! i = Max (set xs) \<and> (\<forall>j<i. xs ! j < Max (set xs))"
proof -
  from assms obtain x rest where xs: "xs = x # rest" and i: "i = argmax_scan rest 1 0 x"
    by (auto simp: idxmax_def split: list.splits)
  have s: "i < length ([x] @ rest) \<and> (\<forall>y\<in>set ([x] @ rest). y \<le> ([x] @ rest) ! i) \<and>
        (\<forall>j<i. ([x] @ rest) ! j < ([x] @ rest) ! i)"
    using argmax_scan_first [of 0 "[x]" x rest] by (simp add: i)
  then have lt: "i < length xs" and ub: "\<forall>y\<in>set xs. y \<le> xs ! i" and first: "\<forall>j<i. xs ! j < xs ! i"
    by (simp_all add: xs)
  have "Max (set xs) = xs ! i"
    using lt ub by (intro Max_eqI) auto
  with lt first show ?thesis by simp
qed

lemma idxmax_total: "xs \<noteq> [] \<Longrightarrow> \<exists>i. idxmax xs = Inr i"
  by (cases xs) (simp_all add: idxmax_def)

lemma argmin_scan_first:
  assumes "bi < length pre" "pre ! bi = b" "\<forall>x\<in>set pre. b \<le> x" "\<forall>j<bi. b < pre ! j"
  shows "argmin_scan xs (length pre) bi b < length (pre @ xs) \<and>
         (\<forall>x\<in>set (pre @ xs). (pre @ xs) ! argmin_scan xs (length pre) bi b \<le> x) \<and>
         (\<forall>j<argmin_scan xs (length pre) bi b.
             (pre @ xs) ! argmin_scan xs (length pre) bi b < (pre @ xs) ! j)"
  using assms
proof (induction xs arbitrary: pre bi b)
  case Nil
  then show ?case by simp
next
  case (Cons x xs)
  show ?case
  proof (cases "x < b")
    case True
    have "\<forall>j<length pre. x < (pre @ [x]) ! j"
    proof (intro allI impI)
      fix j assume "j < length pre"
      then have "b \<le> pre ! j" using Cons.prems(3) by simp
      with True \<open>j < length pre\<close> show "x < (pre @ [x]) ! j" by (simp add: nth_append)
    qed
    moreover have "\<forall>y\<in>set (pre @ [x]). x \<le> y"
      using Cons.prems(3) True by fastforce
    ultimately have
      "argmin_scan xs (length (pre @ [x])) (length pre) x < length ((pre @ [x]) @ xs) \<and>
       (\<forall>y\<in>set ((pre @ [x]) @ xs). ((pre @ [x]) @ xs) ! argmin_scan xs (length (pre @ [x])) (length pre) x \<le> y) \<and>
       (\<forall>j<argmin_scan xs (length (pre @ [x])) (length pre) x.
           ((pre @ [x]) @ xs) ! argmin_scan xs (length (pre @ [x])) (length pre) x < ((pre @ [x]) @ xs) ! j)"
      by (intro Cons.IH) (simp_all add: nth_append)
    with True show ?thesis by simp
  next
    case False
    have "bi < length (pre @ [x])" using Cons.prems(1) by simp
    moreover have "(pre @ [x]) ! bi = b" using Cons.prems(1,2) by (simp add: nth_append)
    moreover have "\<forall>y\<in>set (pre @ [x]). b \<le> y" using Cons.prems(3) False by auto
    moreover have "\<forall>j<bi. b < (pre @ [x]) ! j"
      using Cons.prems(1,4) by (simp add: nth_append)
    ultimately have
      "argmin_scan xs (length (pre @ [x])) bi b < length ((pre @ [x]) @ xs) \<and>
       (\<forall>y\<in>set ((pre @ [x]) @ xs). ((pre @ [x]) @ xs) ! argmin_scan xs (length (pre @ [x])) bi b \<le> y) \<and>
       (\<forall>j<argmin_scan xs (length (pre @ [x])) bi b.
           ((pre @ [x]) @ xs) ! argmin_scan xs (length (pre @ [x])) bi b < ((pre @ [x]) @ xs) ! j)"
      by (rule Cons.IH)
    with False show ?thesis by simp
  qed
qed

lemma idxmin_first:
  assumes "idxmin xs = Inr i"
  shows "i < length xs \<and> xs ! i = Min (set xs) \<and> (\<forall>j<i. Min (set xs) < xs ! j)"
proof -
  from assms obtain x rest where xs: "xs = x # rest" and i: "i = argmin_scan rest 1 0 x"
    by (auto simp: idxmin_def split: list.splits)
  have s: "i < length ([x] @ rest) \<and> (\<forall>y\<in>set ([x] @ rest). ([x] @ rest) ! i \<le> y) \<and>
        (\<forall>j<i. ([x] @ rest) ! i < ([x] @ rest) ! j)"
    using argmin_scan_first [of 0 "[x]" x rest] by (simp add: i)
  then have lt: "i < length xs" and ub: "\<forall>y\<in>set xs. xs ! i \<le> y" and first: "\<forall>j<i. xs ! i < xs ! j"
    by (simp_all add: xs)
  have "Min (set xs) = xs ! i"
    using lt ub by (intro Min_eqI) auto
  with lt first show ?thesis by simp
qed

lemma idxmin_total: "xs \<noteq> [] \<Longrightarrow> \<exists>i. idxmin xs = Inr i"
  by (cases xs) (simp_all add: idxmin_def)

lemma identify_extremes_highest:
  assumes "identify_extremes df primary_col supporting_cols = Inr (Some ex)"
    and "highest ex = Some h"
  shows "\<exists>i. idxmax (col_values df (resolve_col ''max'' primary_col supporting_cols)) = Inr i \<and>
             event_value h = col_values df (resolve_col ''max'' primary_col supporting_cols) ! i \<and>
             event_date h = dates df ! i"
  using assms
  by (auto simp: identify_extremes_def Let_def split: if_splits sum.splits)

lemma identify_extremes_lowest:
  assumes "identify_extremes df primary_col supporting_cols = Inr (Some ex)"
    and "lowest ex = Some l"
  shows "\<exists>i. idxmin (col_values df (resolve_col ''min'' primary_col supporting_cols)) = Inr i \<and>
             event_value l = col_values df (resolve_col ''min'' primary_col supporting_cols) ! i \<and>
             event_date l = dates df ! i"
  using assms
  by (auto simp: identify_extremes_def Let_def split: if_splits sum.splits)

lemma identify_extremes_total:
  assumes "df_rows df \<noteq> []"
  shows "\<exists>r. identify_extremes df primary_col supporting_cols = Inr r \<and>
     (in_columns df (resolve_col ''max'' primary_col supporting_cols) \<longrightarrow>
        (\<exists>ex h. r = Some ex \<and> highest ex = Some h)) \<and>
     (in_columns df (resolve_col ''min'' primary_col supporting_cols) \<longrightarrow>
        (\<exists>ex l. r = Some ex \<and> lowest ex = Some l))"
proof -
  have ne: "col_values df c \<noteq> []" for c
    using assms by (simp add: col_values_def)
  obtain i where i: "idxmax (col_values df (resolve_col ''max'' primary_col supporting_cols)) = Inr i"
    using idxmax_total [OF ne] by blast
  obtain k where k: "idxmin (col_values df (resolve_col ''min'' primary_col supporting_cols)) = Inr k"
    using idxmin_total [OF ne] by blast
  show ?thesis
    by (simp add: identify_extremes_def Let_def i k)
qed

text \<open>
  C7: on a table with at least one row, \<open>_identify_extremes\<close> returns, and reports a highest
  (lowest) event whenever the resolved max (min) column is in the table, the resolved column
  being the first supporting column whose lower-cased name contains "max" ("min"), else the
  primary column. The value of a reported highest event is the maximum of the resolved
  column over the whole table, and its date is the date of the first row, in table order,
  that attains the maximum; symmetrically for the lowest event and the minimum.
\<close>

theorem extremes_consistency:
  "(df_rows df \<noteq> [] \<longrightarrow>
      (\<exists>r. identify_extremes df primary_col supporting_cols = Inr r \<and>
         (in_columns df (resolve_col ''max'' primary_col supporting_cols) \<longrightarrow>
            (\<exists>ex h. r = Some ex \<and> highest ex = Some h)) \<and>
         (in_columns df (resolve_col ''min'' primary_col supporting_cols) \<longrightarrow>
            (\<exists>ex l. r = Some ex \<and> lowest ex = Some l)))) \<and>
   (identify_extremes df primary_col supporting_cols = Inr (Some ex) \<longrightarrow>
      (\<forall>h. highest ex = Some h \<longrightarrow>
         event_value h = Max (set (col_values df (resolve_col ''max'' primary_col supporting_cols))) \<and>
         (\<exists>i. first_max_at (col_values df (resolve_col ''max'' primary_col supporting_cols)) i \<and>
              event_date h = row_date (df_rows df ! i))) \<and>
      (\<forall>l. lowest ex = Some l \<longrightarrow>
         event_value l = Min (set (col_values df (resolve_col ''min'' primary_col supporting_cols))) \<and>
         (\<exists>i. first_min_at (col_values df (resolve_col ''min'' primary_col supporting_cols)) i \<and>
              event_date l = row_date (df_rows df ! i))))"
proof (intro conjI impI allI)
  assume "df_rows df \<noteq> []"
  then show "\<exists>r. identify_extremes df primary_col supporting_cols = Inr r \<and>
         (in_columns df (resolve_col ''max'' primary_col supporting_cols) \<longrightarrow>
            (\<exists>ex h. r = Some ex \<and> highest ex = Some h)) \<and>
         (in_columns df (resolve_col ''min'' primary_col supporting_cols) \<longrightarrow>
            (\<exists>ex l. r = Some ex \<and> lowest ex = Some l))"
    by (rule identify_extremes_total)
next
  fix h
  assume r: "identify_extremes df primary_col supporting_cols = Inr (Some ex)"
    and h: "highest ex = Some h"
  let ?xs = "col_values df (resolve_col ''max'' primary_col supporting_cols)"
  from identify_extremes_highest [OF r h] obtain i where
    i: "idxmax ?xs = Inr i" and v: "event_value h = ?xs ! i" and d: "event_date h = dates df ! i"
    by blast
  from idxmax_first [OF i] have f: "first_max_at ?xs i"
    by (simp add: first_max_at_def)
  then have "i < length (df_rows df)" by (simp add: first_max_at_def col_values_def)
  then have "event_date h = row_date (df_rows df ! i)" using d by (simp add: dates_def)
  with f show "\<exists>i. first_max_at ?xs i \<and> event_date h = row_date (df_rows df ! i)" by blast
  from f v show "event_value h = Max (set ?xs)" by (simp add: first_max_at_def)
next
  fix l
  assume r: "identify_extremes df primary_col supporting_cols = Inr (Some ex)"
    and l: "lowest ex = Some l"
  let ?xs = "col_values df (resolve_col ''min'' primary_col supporting_cols)"
  from identify_extremes_lowest [OF r l] obtain i where
    i: "idxmin ?xs = Inr i" and v: "event_value l = ?xs ! i" and d: "event_date l = dates df ! i"
    by blast
  from idxmin_first [OF i] have f: "first_min_at ?xs i"
    by (simp add: first_min_at_def)
  then have "i < length (df_rows df)" by (simp add: first_min_at_def col_values_def)
  then have "event_date l = row_date (df_rows df ! i)" using d by (simp add: dates_def)
  with f show "\<exists>i. first_min_at ?xs i \<and> event_date l = row_date (df_rows df ! i)" by blast
  from f v show "event_value l = Min (set ?xs)" by (simp add: first_min_at_def)
qed

lemmas extremes_eval =
  identify_extremes_def resolve_col_def lower_def lower_char_def sublist_code in_columns_def
  col_values_def dates_def idxmax_def idxmin_def extremes_df_def

theorem extremes_consistency_witness:
  "df_rows extremes_df \<noteq> [] \<and>
   resolve_col ''max'' ''temp'' [''temp_min'', ''Temp_MAX''] = ''Temp_MAX'' \<and>
   in_columns extremes_df ''Temp_MAX'' \<and>
   col_values extremes_df ''Temp_MAX'' = [30, 34, 34] \<and>
   col_values extremes_df ''temp_min'' = [12, 9, 9] \<and>
   identify_extremes extremes_df ''temp'' [''temp_min'', ''Temp_MAX''] =
     Inr (Some \<lparr>highest = Some \<lparr>event_value = 34,
                                 event_date = \<lparr>year = 2021, month = 7, day = 2\<rparr>\<rparr>,
                 lowest = Some \<lparr>event_value = 9,
                                event_date = \<lparr>year = 2021, month = 7, day = 2\<rparr>\<rparr>\<rparr>) \<and>
   first_max_at [30, 34, 34] 1 \<and> first_min_at [12, 9, 9] 1"
  using extremes_consistency [of extremes_df "''temp''" "[''temp_min'', ''Temp_MAX'']"
      "\<lparr>highest = Some \<lparr>event_value = 34, event_date = \<lparr>year = 2021, month = 7, day = 2\<rparr>\<rparr>,
        lowest = Some \<lparr>event_value = 9, event_date = \<lparr>year = 2021, month = 7, day = 2\<rparr>\<rparr>\<rparr>"]
  by (simp add: extremes_eval first_max_at_def first_min_at_def less_Suc_eq)

lemma corr_body_stored:
  "stored df results p \<Longrightarrow>
   corr_body df results corrs p = AList.update (key_of p) (pair_entry df p) corrs"
  by (simp add: corr_body_def stored_def pair_strong_def pair_entry_def pair_corr_def key_of_def
      Let_def)

lemma corr_body_skipped:
  "\<not> stored df results p \<Longrightarrow> corr_body df results corrs p = corrs"
  by (auto simp: corr_body_def stored_def pair_strong_def pair_entry_def pair_corr_def key_of_def
      Let_def)

lemma corr_body_lookup:
  "map_of (corr_body df results corrs p) k =
     (if stored df results p \<and> key_of p = k then Some (pair_entry df p) else map_of corrs k)"
  by (cases "stored df results p") (simp_all add: corr_body_stored corr_body_skipped update_conv')

lemma corr_fold_other_key:
  "k \<notin> key_of ` set ps \<Longrightarrow>
   map_of (foldl (corr_body df results) acc ps) k = map_of acc k"
proof (induction ps arbitrary: acc)
  case Nil
  then show ?case by simp
next
  case (Cons q ps)
  then have "map_of (foldl (corr_body df results) (corr_body df results acc q) ps) k =
      map_of (corr_body df results acc q) k"
    by simp
  with Cons.prems show ?case by (auto simp: corr_body_lookup)
qed

lemma corr_fold_distinct:
  "distinct (map fst acc) \<Longrightarrow> distinct (map fst (foldl (corr_body df results) acc ps))"
proof (induction ps arbitrary: acc)
  case Nil
  then show ?case by simp
next
  case (Cons q ps)
  have "distinct (map fst (corr_body df results acc q))"
    using Cons.prems
    by (cases "stored df results q") (simp_all add: corr_body_stored corr_body_skipped distinct_update)
  from Cons.IH [OF this] show ?case by simp
qed

lemma corr_fold_origin:
  "map_of (foldl (corr_body df results) acc ps) k = Some v \<Longrightarrow>
   map_of acc k = Some v \<or> (\<exists>p\<in>set ps. stored df results p \<and> key_of p = k \<and> v = pair_entry df p)"
proof (induction ps arbitrary: acc)
  case Nil
  then show ?case by simp
next
  case (Cons q ps)
  from Cons.prems have "map_of (foldl (corr_body df results) (corr_body df results acc q) ps) k = Some v"
    by simp
  from Cons.IH [OF this] show ?case
    by (auto simp: corr_body_lookup split: if_splits)
qed

lemma corr_fold_keeps:
  "map_of acc k \<noteq> None \<Longrightarrow> map_of (foldl (corr_body df results) acc ps) k \<noteq> None"
proof (induction ps arbitrary: acc)
  case Nil
  then show ?case by simp
next
  case (Cons q ps)
  have "map_of (corr_body df results acc q) k \<noteq> None"
    using Cons.prems by (simp add: corr_body_lookup)
  from Cons.IH [OF this] show ?case by simp
qed

lemma corr_fold_present:
  "p \<in> set ps \<Longrightarrow> stored df results p \<Longrightarrow>
   map_of (foldl (corr_body df results) acc ps) (key_of p) \<noteq> None"
proof (induction ps arbitrary: acc)
  case Nil
  then show ?case by simp
next
  case (Cons q ps)
  show ?case
  proof (cases "p = q")
    case True
    with Cons.prems(2) have "map_of (corr_body df results acc q) (key_of p) \<noteq> None"
      by (simp add: corr_body_lookup)
    from corr_fold_keeps [OF this] show ?thesis by simp
  next
    case False
    with Cons.prems have "p \<in> set ps" by simp
    from Cons.IH [OF this Cons.prems(2)] show ?thesis by simp
  qed
qed

lemma corr_fold_exact:
  "distinct (map key_of ps) \<Longrightarrow> p \<in> set ps \<Longrightarrow>
   map_of (foldl (corr_body df results) acc ps) (key_of p) =
     (if stored df results p then Some (pair_entry df p) else map_of acc (key_of p))"
proof (induction ps arbitrary: acc)
  case Nil
  then show ?case by simp
next
  case (Cons q ps)
  show ?case
  proof (cases "p = q")
    case True
    with Cons.prems(1) have "key_of p \<notin> key_of ` set ps" by simp
    then have "map_of (foldl (corr_body df results) (corr_body df results acc q) ps) (key_of p) =
        map_of (corr_body df results acc q) (key_of p)"
      by (rule corr_fold_other_key)
    with True show ?thesis by (simp add: corr_body_lookup)
  next
    case False
    with Cons.prems have in_ps: "p \<in> set ps" and d: "distinct (map key_of ps)"
      and ne: "key_of q \<noteq> key_of p"
      by auto
    from Cons.IH [OF d in_ps, of "corr_body df results acc q"] ne show ?thesis
      by (simp add: corr_body_lookup)
  qed
qed

lemma ordered_pairs_members:
  "(a, b) \<in> set (ordered_pairs xs) \<Longrightarrow> a \<in> set xs \<and> b \<in> set xs"
  by (induction xs) auto

lemma ordered_pairs_iff:
  "(a, b) \<in> set (ordered_pairs xs) \<longleftrightarrow>
     (\<exists>i j. i < j \<and> j < length xs \<and> xs ! i = a \<and> xs ! j = b)"
proof (induction xs)
  case Nil
  then show ?case by simp
next
  case (Cons x xs)
  have "(\<exists>i j. i < j \<and> j < length (x # xs) \<and> (x # xs) ! i = a \<and> (x # xs) ! j = b) \<longleftrightarrow>
        (x = a \<and> b \<in> set xs) \<or> (\<exists>i j. i < j \<and> j < length xs \<and> xs ! i = a \<and> xs ! j = b)"
    (is "?L \<longleftrightarrow> ?R")
  proof
    assume ?L
    then obtain i j where ij: "i < j" "j < length (x # xs)" "(x # xs) ! i = a" "(x # xs) ! j = b"
      by blast
    then obtain j' where j': "j = Suc j'" by (cases j) auto
    show ?R
    proof (cases i)
      case 0
      with ij j' show ?thesis by auto
    next
      case (Suc i')
      with ij j' have "i' < j' \<and> j' < length xs \<and> xs ! i' = a \<and> xs ! j' = b" by auto
      then show ?thesis by blast
    qed
  next
    assume ?R
    then show ?L
    proof
      assume "x = a \<and> b \<in> set xs"
      then obtain j where "j < length xs" "xs ! j = b" "x = a"
        by (auto simp: in_set_conv_nth)
      then have "0 < Suc j \<and> Suc j < length (x # xs) \<and> (x # xs) ! 0 = a \<and> (x # xs) ! Suc j = b"
        by simp
      then show ?L by blast
    next
      assume "\<exists>i j. i < j \<and> j < length xs \<and> xs ! i = a \<and> xs ! j = b"
      then obtain i j where "i < j" "j < length xs" "xs ! i = a" "xs ! j = b" by blast
      then have "Suc i < Suc j \<and> Suc j < length (x # xs) \<and> (x # xs) ! Suc i = a \<and> (x # xs) ! Suc j = b"
        by simp
      then show ?L by blast
    qed
  qed
  with Cons.IH show ?case by auto
qed

lemma map2_products_commute:
  "map2 (\<lambda>x y. (x - a) * (y - b)) xs ys = map2 (\<lambda>y x. (y - b) * (x - (a::real))) ys xs"
  by (induction xs ys rule: list_induct2') (simp_all add: mult.commute)

lemma pearson_commute: "pearson xs ys = pearson ys xs"
  by (simp add: pearson_def Let_def mult.commute map2_products_commute [of "mean_of xs" "mean_of ys"])

lemma stored_iff_strong:
  assumes "present_covered df variable_groups results" "p \<in> set (ordered_pairs variable_groups)"
  shows "stored df results p \<longleftrightarrow> pair_strong df p"
proof -
  obtain a b where p: "p = (a, b)" by (cases p)
  with assms(2) have "a \<in> set variable_groups \<and> b \<in> set variable_groups"
    by (auto dest: ordered_pairs_members)
  with assms(1) have
    "in_columns df (primary (snd a)) \<longrightarrow> map_of results (fst a) \<noteq> None"
    "in_columns df (primary (snd b)) \<longrightarrow> map_of results (fst b) \<noteq> None"
    by (auto simp: present_covered_def list_all_iff)
  then show ?thesis
    by (auto simp: stored_def pair_strong_def in_results_def p)
qed

lemma correlations_fold:
  "correlations (detect_cross_variable_patterns df variable_groups results) =
     foldl (corr_body df results) [] (ordered_pairs variable_groups)"
  by (simp add: detect_cross_variable_patterns_def Let_def)

text \<open>
  C8, amended: the Pearson correlation is symmetric in its arguments; the correlations
  mapping has every key once; every key is the key \<open>a_and_b\<close> of a strong pair with \<open>a\<close>
  before \<open>b\<close> in schema order; every strong pair has an entry under its key; and when no
  two pairs of the schema share a key, the entry under the key of a pair is there if and
  only if the pair is strong, and then holds that pair's correlation and relationship.
\<close>

theorem correlations_mapping:
  assumes cover: "present_covered df variable_groups results"
  shows "pearson xs ys = pearson ys xs \<and>
     distinct (map fst (correlations (detect_cross_variable_patterns df variable_groups results))) \<and>
     (\<forall>k v. map_of (correlations (detect_cross_variable_patterns df variable_groups results)) k = Some v
        \<longrightarrow> (\<exists>p\<in>set (ordered_pairs variable_groups). k = key_of p \<and> pair_strong df p)) \<and>
     (\<forall>p\<in>set (ordered_pairs variable_groups). pair_strong df p \<longrightarrow>
        map_of (correlations (detect_cross_variable_patterns df variable_groups results)) (key_of p)
          \<noteq> None) \<and>
     (keys_distinct variable_groups \<longrightarrow>
        (\<forall>p\<in>set (ordered_pairs variable_groups).
           map_of (correlations (detect_cross_variable_patterns df variable_groups results)) (key_of p) =
             (if pair_strong df p then Some (pair_entry df p) else None))) \<and>
     (\<forall>a b. (a, b) \<in> set (ordered_pairs variable_groups) \<longleftrightarrow>
        (\<exists>i j. i < j \<and> j < length variable_groups \<and>
               variable_groups ! i = a \<and> variable_groups ! j = b))"
proof (intro conjI)
  show "pearson xs ys = pearson ys xs" by (rule pearson_commute)
  show "distinct (map fst (correlations (detect_cross_variable_patterns df variable_groups results)))"
    unfolding correlations_fold by (rule corr_fold_distinct) simp
  show "\<forall>k v. map_of (correlations (detect_cross_variable_patterns df variable_groups results)) k = Some v
        \<longrightarrow> (\<exists>p\<in>set (ordered_pairs variable_groups). k = key_of p \<and> pair_strong df p)"
    unfolding correlations_fold
  proof (intro allI impI)
    fix k v
    assume "map_of (foldl (corr_body df results) [] (ordered_pairs variable_groups)) k = Some v"
    from corr_fold_origin [OF this] obtain p where
      "p \<in> set (ordered_pairs variable_groups)" "stored df results p" "key_of p = k"
      by auto
    then show "\<exists>p\<in>set (ordered_pairs variable_groups). k = key_of p \<and> pair_strong df p"
      by (auto simp: stored_def)
  qed
  show "\<forall>p\<in>set (ordered_pairs variable_groups). pair_strong df p \<longrightarrow>
        map_of (correlations (detect_cross_variable_patterns df variable_groups results)) (key_of p)
          \<noteq> None"
    unfolding correlations_fold
    using stored_iff_strong [OF cover] corr_fold_present by blast
  show "keys_distinct variable_groups \<longrightarrow>
        (\<forall>p\<in>set (ordered_pairs variable_groups).
           map_of (correlations (detect_cross_variable_patterns df variable_groups results)) (key_of p) =
             (if pair_strong df p then Some (pair_entry df p) else None))"
    unfolding correlations_fold keys_distinct_def
    using stored_iff_strong [OF cover] corr_fold_exact [of "ordered_pairs variable_groups" _ df results "[]"]
    by simp
  show "\<forall>a b. (a, b) \<in> set (ordered_pairs variable_groups) \<longleftrightarrow>
        (\<exists>i j. i < j \<and> j < length variable_groups \<and>
               variable_groups ! i = a \<and> variable_groups ! j = b)"
    by (simp add: ordered_pairs_iff)
qed

lemma pearson_clash_a: "pearson [0, 1, 2] [0, 1, 2] = Fl 1"
  by (simp add: pearson_def mean_of_def Let_def power2_eq_square)

lemma pearson_clash_b: "pearson [5, 5, 5] [0, 1, 2] = NaN"
  by (simp add: pearson_def mean_of_def Let_def)

lemma pearson_inverse: "pearson [0, 1, 2] [2, 1, 0] = Fl (-1)"
  by (simp add: pearson_def mean_of_def Let_def power2_eq_square)

lemma pearson_clash_c: "pearson [0, 1, 2] [5, 5, 5] = NaN"
  by (simp add: pearson_def mean_of_def Let_def)

lemmas corr_eval =
  correlations_fold corr_body_def in_results_def in_columns_def col_values_def pair_key_def
  key_of_def pair_corr_def pair_strong_def pair_entry_def day_row_def

text \<open>
  C8, as stated, on a schema with the groups \<open>a\<close>, \<open>b_and_c\<close>, \<open>a_and_b\<close>, \<open>c\<close>: the pair
  (\<open>a_and_b\<close>, \<open>c\<close>) has an undefined correlation (one column is constant), yet the mapping
  has an entry under its key \<open>a_and_b_and_c\<close>, written for the pair (\<open>a\<close>, \<open>b_and_c\<close>).
\<close>

theorem correlation_key_clash_counterexample:
  "key_of (clash_schema ! 2, clash_schema ! 3) = key_of (clash_schema ! 0, clash_schema ! 1) \<and>
   map_of (correlations (detect_cross_variable_patterns clash_df clash_schema clash_results))
          (key_of (clash_schema ! 2, clash_schema ! 3)) =
     Some \<lparr>correlation = Fl 1, relationship = ''direct''\<rparr> \<and>
   pair_corr clash_df (clash_schema ! 2, clash_schema ! 3) = NaN \<and>
   \<not> pair_strong clash_df (clash_schema ! 2, clash_schema ! 3)"
  by (simp add: corr_eval clash_schema_def clash_df_def clash_results_def Let_def
      pearson_clash_a pearson_clash_b pearson_clash_c)

theorem correlations_mapping_witness:
  "present_covered corr_df summarizer_groups corr_results \<and>
   keys_distinct summarizer_groups \<and>
   (summarizer_groups ! 0, summarizer_groups ! 1) \<in> set (ordered_pairs summarizer_groups) \<and>
   key_of (summarizer_groups ! 0, summarizer_groups ! 1) = ''temperature_and_precipitation'' \<and>
   pair_strong corr_df (summarizer_groups ! 0, summarizer_groups ! 1) \<and>
   map_of (correlations (detect_cross_variable_patterns corr_df summarizer_groups corr_results))
          ''temperature_and_precipitation'' =
     Some \<lparr>correlation = Fl (-1), relationship = ''inverse''\<rparr> \<and>
   pearson [0, 1, 2] [2, 1, 0] = pearson [2, 1, 0] [0, 1, 2]"
proof -
  let ?p = "(summarizer_groups ! 0, summarizer_groups ! 1)"
  have cover: "present_covered corr_df summarizer_groups corr_results"
    by (simp add: present_covered_def summarizer_groups_def corr_df_def corr_results_def
        in_columns_def degree_sign_def)
  have kd: "keys_distinct summarizer_groups"
    by (simp add: keys_distinct_def summarizer_groups_def key_of_def pair_key_def)
  have mem: "?p \<in> set (ordered_pairs summarizer_groups)"
    by (simp add: summarizer_groups_def)
  have key: "key_of ?p = ''temperature_and_precipitation''"
    by (simp add: summarizer_groups_def key_of_def pair_key_def)
  have strong: "pair_strong corr_df ?p"
    by (simp add: summarizer_groups_def pair_strong_def pair_corr_def corr_df_def in_columns_def
        col_values_def day_row_def degree_sign_def pearson_inverse)
  have entry: "pair_entry corr_df ?p = \<lparr>correlation = Fl (-1), relationship = ''inverse''\<rparr>"
    by (simp add: summarizer_groups_def pair_entry_def pair_corr_def corr_df_def
        col_values_def day_row_def degree_sign_def pearson_inverse)
  from correlations_mapping [OF cover, of "[0, 1, 2]" "[2, 1, 0]"] kd mem
  have "map_of (correlations (detect_cross_variable_patterns corr_df summarizer_groups corr_results))
          (key_of ?p) = (if pair_strong corr_df ?p then Some (pair_entry corr_df ?p) else None)"
    and "pearson [0, 1, 2] [2, 1, 0] = pearson [2, 1, 0] [0, 1, 2]"
    by blast+
  with cover kd mem key strong entry show ?thesis by simp
qed

section \<open>Properties of the analysis pipeline\<close>

lemma detect_trend_result:
  assumes "in_columns df col"
  shows "detect_trend linregress df col =
     (case linregress (time_index df) (col_values df col) of
        Inl e \<Rightarrow> Inl e | Inr r \<Rightarrow> Inr (trend_of r))"
  using assms by (simp add: detect_trend_def column_def time_index_def trend_of_def Let_def
      split: sum.splits)

lemma summarize_primary_total:
  "in_columns df col \<Longrightarrow> \<exists>s. summarize_primary lib df col = Inr s"
  by (simp add: summarize_primary_def column_def)

lemma seasonal_total:
  "in_columns df col \<Longrightarrow> \<exists>s. compute_seasonal_patterns lib df col = Inr s"
  by (simp add: compute_seasonal_patterns_def column_def Let_def)

lemma yearly_total:
  assumes "in_columns df col"
  shows "\<exists>y. compute_yearly_comparisons lib df col = Inr y"
proof -
  define years where "years = sort (remdups (map year (dates df)))"
  define yearly where "yearly = map (\<lambda>y. lib_mean lib (map (\<lambda>r. row_values r col)
                                    (filter (\<lambda>r. year (row_date r) = y) (df_rows df)))) years"
  show ?thesis
  proof (cases "yearly = []")
    case True
    then show ?thesis
      using assms
      by (simp add: compute_yearly_comparisons_def column_def Let_def yearly_def years_def)
  next
    case False
    then obtain hi lo where "idxmax yearly = Inr hi" "idxmin yearly = Inr lo"
      using idxmax_total idxmin_total by blast
    with False show ?thesis
      using assms
      by (simp add: compute_yearly_comparisons_def column_def Let_def yearly_def years_def)
  qed
qed

lemma optional_loop_total:
  "in_columns df primary_col \<Longrightarrow>
   \<exists>r. optional_features_loop lib df primary_col cols features = Inr r"
  by (induction cols arbitrary: features) (simp_all add: column_def Let_def)

lemma analyze_group_fails:
  assumes "in_columns df (primary gc)"
    and "lib_linregress lib (time_index df) (col_values df (primary gc)) = Inl e"
  shows "analyze_group lib df gc = Inl e"
proof -
  obtain s where "summarize_primary lib df (primary gc) = Inr s"
    using summarize_primary_total [OF assms(1)] by blast
  then show ?thesis
    by (simp add: analyze_group_def Let_def detect_trend_result [OF assms(1)] assms(2))
qed

lemma analyze_group_returns:
  assumes "in_columns df (primary gc)" "df_rows df \<noteq> []"
    and "lib_linregress lib (time_index df) (col_values df (primary gc)) = Inr r"
  shows "\<exists>b. analyze_group lib df gc = Inr b \<and> g_trend b = trend_of r"
proof -
  obtain s where s: "summarize_primary lib df (primary gc) = Inr s"
    using summarize_primary_total [OF assms(1)] by blast
  obtain se where se: "compute_seasonal_patterns lib df (primary gc) = Inr se"
    using seasonal_total [OF assms(1)] by blast
  obtain y where y: "compute_yearly_comparisons lib df (primary gc) = Inr y"
    using yearly_total [OF assms(1)] by blast
  obtain ex where ex: "identify_extremes df (primary gc) (supporting gc) = Inr ex"
    using identify_extremes_total [OF assms(2)] by blast
  obtain opt where opt: "analyze_optional_features lib df (primary gc) (comparison gc) = Inr opt"
    using optional_loop_total [OF assms(1), of lib "comparison gc" None]
    unfolding analyze_optional_features_def by blast
  show ?thesis
    by (simp add: analyze_group_def Let_def detect_trend_result [OF assms(1)] assms(3) s se y ex opt)
qed

lemma analyze_groups_first_failure:
  assumes "df_rows df \<noteq> []" "find (regression_fails lib df) variable_groups = Some g"
  shows "analyze_groups lib df variable_groups acc =
           Inl (projl (lib_linregress lib (time_index df) (col_values df (primary (snd g)))))"
  using assms(2)
proof (induction variable_groups arbitrary: acc)
  case Nil
  then show ?case by simp
next
  case (Cons h rest)
  obtain name gc where h: "h = (name, gc)" by (cases h)
  show ?case
  proof (cases "regression_fails lib df h")
    case True
    with Cons.prems have g: "g = h" by simp
    from True h obtain e where col: "in_columns df (primary gc)"
      and e: "lib_linregress lib (time_index df) (col_values df (primary gc)) = Inl e"
      by (auto simp: regression_fails_def isl_def)
    from analyze_group_fails [where lib = lib and df = df and gc = gc and e = e] col e
    show ?thesis
      by (simp add: h g)
  next
    case False
    with Cons.prems have f: "find (regression_fails lib df) rest = Some g" by simp
    show ?thesis
    proof (cases "in_columns df (primary gc)")
      case True
      with False h obtain r where
        "lib_linregress lib (time_index df) (col_values df (primary gc)) = Inr r"
        by (auto simp: regression_fails_def isl_def
            intro: sum.exhaust [of "lib_linregress lib (time_index df) (col_values df (primary gc))"])
      with analyze_group_returns [where lib = lib and df = df and gc = gc and r = r]
        True assms(1)
      obtain b where "analyze_group lib df gc = Inr b" by blast
      with True Cons.IH [OF f] show ?thesis by (simp add: h)
    next
      case False
      with Cons.IH [OF f] show ?thesis by (simp add: h)
    qed
  qed
qed

lemma analyze_groups_returns:
  assumes "df_rows df \<noteq> []" "find (regression_fails lib df) variable_groups = None"
  shows "\<exists>results. analyze_groups lib df variable_groups acc = Inr results"
  using assms(2)
proof (induction variable_groups arbitrary: acc)
  case Nil
  then show ?case by simp
next
  case (Cons h rest)
  obtain name gc where h: "h = (name, gc)" by (cases h)
  from Cons.prems have nf: "\<not> regression_fails lib df h"
    and f: "find (regression_fails lib df) rest = None"
    by (auto split: if_splits)
  show ?case
  proof (cases "in_columns df (primary gc)")
    case True
    with nf h obtain r where
      "lib_linregress lib (time_index df) (col_values df (primary gc)) = Inr r"
      by (auto simp: regression_fails_def isl_def
          intro: sum.exhaust [of "lib_linregress lib (time_index df) (col_values df (primary gc))"])
    with analyze_group_returns [where lib = lib and df = df and gc = gc and r = r]
      True assms(1)
    obtain b where "analyze_group lib df gc = Inr b" by blast
    with True Cons.IH [OF f] show ?thesis by (simp add: h)
  next
    case False
    with Cons.IH [OF f] show ?thesis by (simp add: h)
  qed
qed

lemma analyze_groups_other_name:
  "analyze_groups lib df variable_groups acc = Inr results \<Longrightarrow>
   n \<notin> fst ` set variable_groups \<Longrightarrow> map_of results n = map_of acc n"
proof (induction variable_groups arbitrary: acc)
  case Nil
  then show ?case by simp
next
  case (Cons h rest)
  obtain name gc where h: "h = (name, gc)" by (cases h)
  from Cons.prems(2) have n: "n \<noteq> name" "n \<notin> fst ` set rest" by (auto simp: h)
  show ?case
  proof (cases "in_columns df (primary gc)")
    case True
    with Cons.prems(1) obtain b where b: "analyze_group lib df gc = Inr b"
      and rest: "analyze_groups lib df rest (AList.update name b acc) = Inr results"
      by (auto simp: h split: sum.splits)
    from Cons.IH [OF rest n(2)] n(1) show ?thesis by (simp add: update_conv')
  next
    case False
    with Cons.prems(1) have "analyze_groups lib df rest acc = Inr results"
      by (simp add: h)
    from Cons.IH [OF this n(2)] show ?thesis .
  qed
qed

lemma analyze_groups_keeps:
  "analyze_groups lib df variable_groups acc = Inr results \<Longrightarrow>
   map_of acc n \<noteq> None \<Longrightarrow> map_of results n \<noteq> None"
proof (induction variable_groups arbitrary: acc)
  case Nil
  then show ?case by simp
next
  case (Cons h rest)
  obtain name gc where h: "h = (name, gc)" by (cases h)
  show ?case
  proof (cases "in_columns df (primary gc)")
    case True
    with Cons.prems(1) obtain b where b: "analyze_group lib df gc = Inr b"
      and rest: "analyze_groups lib df rest (AList.update name b acc) = Inr results"
      by (auto simp: h split: sum.splits)
    have "map_of (AList.update name b acc) n \<noteq> None"
      using Cons.prems(2) by (simp add: update_conv')
    from Cons.IH [OF rest this] show ?thesis .
  next
    case False
    with Cons.prems(1) have "analyze_groups lib df rest acc = Inr results"
      by (simp add: h)
    from Cons.IH [OF this Cons.prems(2)] show ?thesis .
  qed
qed

lemma analyze_groups_bundle:
  "analyze_groups lib df variable_groups acc = Inr results \<Longrightarrow>
   distinct (map fst variable_groups) \<Longrightarrow> g \<in> set variable_groups \<Longrightarrow>
   in_columns df (primary (snd g)) \<Longrightarrow>
   \<exists>b. map_of results (fst g) = Some b \<and> analyze_group lib df (snd g) = Inr b"
proof (induction variable_groups arbitrary: acc)
  case Nil
  then show ?case by simp
next
  case (Cons h rest)
  obtain name gc where h: "h = (name, gc)" by (cases h)
  from Cons.prems(2) have d: "distinct (map fst rest)" and fresh: "name \<notin> fst ` set rest"
    by (auto simp: h)
  show ?case
  proof (cases "g = h")
    case True
    with Cons.prems(4) have col: "in_columns df (primary gc)" by (simp add: h)
    with Cons.prems(1) obtain b where b: "analyze_group lib df gc = Inr b"
      and rest: "analyze_groups lib df rest (AList.update name b acc) = Inr results"
      by (auto simp: h split: sum.splits)
    from analyze_groups_other_name [OF rest fresh] have "map_of results name = Some b"
      by (simp add: update_conv')
    with b True show ?thesis by (simp add: h)
  next
    case False
    with Cons.prems(3) have g: "g \<in> set rest" by simp
    show ?thesis
    proof (cases "in_columns df (primary gc)")
      case True
      with Cons.prems(1) obtain b where
        rest: "analyze_groups lib df rest (AList.update name b acc) = Inr results"
        by (auto simp: h split: sum.splits)
      from Cons.IH [OF rest d g Cons.prems(4)] show ?thesis .
    next
      case False
      with Cons.prems(1) have "analyze_groups lib df rest acc = Inr results"
        by (simp add: h)
      from Cons.IH [OF this d g Cons.prems(4)] show ?thesis .
    qed
  qed
qed

lemma analyze_groups_covers:
  "analyze_groups lib df variable_groups acc = Inr results \<Longrightarrow>
   g \<in> set variable_groups \<Longrightarrow> in_columns df (primary (snd g)) \<Longrightarrow>
   map_of results (fst g) \<noteq> None"
proof (induction variable_groups arbitrary: acc)
  case Nil
  then show ?case by simp
next
  case (Cons h rest)
  obtain name gc where h: "h = (name, gc)" by (cases h)
  show ?case
  proof (cases "in_columns df (primary gc)")
    case True
    with Cons.prems(1) obtain b where
      rest: "analyze_groups lib df rest (AList.update name b acc) = Inr results"
      by (auto simp: h split: sum.splits)
    show ?thesis
    proof (cases "g = h")
      case True
      have "map_of (AList.update name b acc) name \<noteq> None" by (simp add: update_conv')
      from analyze_groups_keeps [OF rest this] True show ?thesis by (simp add: h)
    next
      case False
      with Cons.prems(2) have "g \<in> set rest" by simp
      from Cons.IH [OF rest this Cons.prems(3)] show ?thesis .
    qed
  next
    case False
    with Cons.prems(1) have rest: "analyze_groups lib df rest acc = Inr results"
      by (simp add: h)
    from False Cons.prems(3) have "g \<noteq> h" by (auto simp: h)
    with Cons.prems(2) have "g \<in> set rest" by simp
    from Cons.IH [OF rest this Cons.prems(3)] show ?thesis .
  qed
qed

lemma map_of_filter_key:
  "map_of (filter (\<lambda>item. P (fst item)) xs) k = (if P k then map_of xs k else None)"
  by (induction xs) auto

lemma analyze_result:
  "analyze lib df station_name variable_groups = Inr stats \<longleftrightarrow>
   (\<exists>results. analyze_groups lib df variable_groups [] = Inr results \<and>
      stats = \<lparr>basic = (case map_of results ''basic'' of
                          None \<Rightarrow> BasicInfo (compute_basic_info df station_name)
                        | Some g \<Rightarrow> BasicGroup g),
               groups = filter (\<lambda>item. fst item \<noteq> ''basic'' \<and> fst item \<noteq> ''patterns'') results,
               patterns = Some (detect_cross_variable_patterns df variable_groups results)\<rparr>)"
  by (auto simp: analyze_def Let_def split: sum.splits)

lemma analyze_present_covered:
  assumes "analyze lib df station_name variable_groups = Inr stats"
  shows "\<exists>results. analyze_groups lib df variable_groups [] = Inr results \<and>
           patterns stats = Some (detect_cross_variable_patterns df variable_groups results) \<and>
           present_covered df variable_groups results"
proof -
  from assms obtain results where
    r: "analyze_groups lib df variable_groups [] = Inr results"
    and p: "patterns stats = Some (detect_cross_variable_patterns df variable_groups results)"
    by (auto simp: analyze_result)
  have "present_covered df variable_groups results"
    using analyze_groups_covers [OF r] by (auto simp: present_covered_def list_all_iff)
  with r p show ?thesis by blast
qed

lemma analyze_group_trend:
  assumes "in_columns df (primary gc)" "df_rows df \<noteq> []"
    and "analyze_group lib df gc = Inr b"
  shows "\<exists>r. lib_linregress lib (time_index df) (col_values df (primary gc)) = Inr r \<and>
             g_trend b = trend_of r"
proof (cases "lib_linregress lib (time_index df) (col_values df (primary gc))")
  case (Inl e)
  with analyze_group_fails [where lib = lib and df = df and gc = gc and e = e]
    assms(1,3)
  show ?thesis by simp
next
  case (Inr r)
  with analyze_group_returns [where lib = lib and df = df and gc = gc and r = r]
    assms
  show ?thesis by auto
qed

text \<open>
  C2, amended: \<open>analyze\<close> does not isolate failures. On a table with at least one row, if
  the regression raises for some group whose primary column is in the table, \<open>analyze\<close>
  raises the exception of the first such group in schema order and returns no bundle; if
  the regression returns for every such group, \<open>analyze\<close> returns. In the result every group
  of the schema whose primary column is in the table has had all its sub-computations done,
  the trend built from the regression's result, and its bundle stands under its name: under
  \<open>basic\<close>, in place of the basic information, for a group of that name, while the bundle
  of a group called \<open>patterns\<close> is replaced by the cross-variable patterns.
\<close>

theorem analyze_failure_propagation:
  assumes "df_rows df \<noteq> []"
  shows
    "(\<forall>g. find (regression_fails lib df) variable_groups = Some g \<longrightarrow>
        analyze lib df station_name variable_groups =
          Inl (projl (lib_linregress lib (time_index df) (col_values df (primary (snd g)))))) \<and>
     (find (regression_fails lib df) variable_groups = None \<longrightarrow>
        (\<exists>stats. analyze lib df station_name variable_groups = Inr stats)) \<and>
     (\<forall>stats g. analyze lib df station_name variable_groups = Inr stats \<and>
          distinct (map fst variable_groups) \<and> g \<in> set variable_groups \<and>
          in_columns df (primary (snd g)) \<longrightarrow>
        (\<exists>b r. analyze_group lib df (snd g) = Inr b \<and>
               lib_linregress lib (time_index df) (col_values df (primary (snd g))) = Inr r \<and>
               g_trend b = trend_of r \<and>
               (if fst g = ''basic'' then basic stats = BasicGroup b
                else if fst g = ''patterns'' then map_of (groups stats) (fst g) = None
                else map_of (groups stats) (fst g) = Some b)))"
proof (intro conjI allI impI)
  {
    fix g
    assume "find (regression_fails lib df) variable_groups = Some g"
    from analyze_groups_first_failure [OF assms this, of "[]"]
    show "analyze lib df station_name variable_groups =
          Inl (projl (lib_linregress lib (time_index df) (col_values df (primary (snd g)))))"
      by (simp add: analyze_def)
  }
  {
    assume "find (regression_fails lib df) variable_groups = None"
    from analyze_groups_returns [OF assms this, of "[]"]
    show "\<exists>stats. analyze lib df station_name variable_groups = Inr stats"
      by (auto simp: analyze_def)
  }
  {
    fix stats g
    assume a: "analyze lib df station_name variable_groups = Inr stats \<and>
          distinct (map fst variable_groups) \<and> g \<in> set variable_groups \<and>
          in_columns df (primary (snd g))"
    then obtain results where
      r: "analyze_groups lib df variable_groups [] = Inr results"
      and bs: "basic stats = (case map_of results ''basic'' of
                          None \<Rightarrow> BasicInfo (compute_basic_info df station_name)
                        | Some g \<Rightarrow> BasicGroup g)"
      and gs: "groups stats =
                 filter (\<lambda>item. fst item \<noteq> ''basic'' \<and> fst item \<noteq> ''patterns'') results"
      by (auto simp: analyze_result)
    from analyze_groups_bundle [OF r] a obtain b where
      b: "map_of results (fst g) = Some b" "analyze_group lib df (snd g) = Inr b"
      by blast
    from analyze_group_trend [OF _ assms b(2)] a obtain rr where
      rr: "lib_linregress lib (time_index df) (col_values df (primary (snd g))) = Inr rr"
      "g_trend b = trend_of rr"
      by blast
    have "map_of (groups stats) k =
            (if k \<noteq> ''basic'' \<and> k \<noteq> ''patterns'' then map_of results k else None)" for k
      unfolding gs
      by (rule map_of_filter_key [where P = "\<lambda>n. n \<noteq> ''basic'' \<and> n \<noteq> ''patterns''"])
    with b(1) bs have "if fst g = ''basic'' then basic stats = BasicGroup b
                else if fst g = ''patterns'' then map_of (groups stats) (fst g) = None
                else map_of (groups stats) (fst g) = Some b"
      by auto
    with b(2) rr show "\<exists>b r. analyze_group lib df (snd g) = Inr b \<and>
               lib_linregress lib (time_index df) (col_values df (primary (snd g))) = Inr r \<and>
               g_trend b = trend_of r \<and>
               (if fst g = ''basic'' then basic stats = BasicGroup b
                else if fst g = ''patterns'' then map_of (groups stats) (fst g) = None
                else map_of (groups stats) (fst g) = Some b)"
      by blast
  }
qed

lemmas analyze_eval =
  analyze_def compute_basic_info_def dates_def analyze_group_def summarize_primary_def column_def
  in_columns_def col_values_def compute_range_def detect_trend_def example_linregress_def
  example_numerics_def day_row_def temp_schema_def

text \<open>
  C2, as stated, on a table of two rows with the same date, one time point: the primary
  column is in the table, the regression raises a ValueError, and so does \<open>analyze\<close>.
\<close>

theorem analyze_same_day_counterexample:
  "in_columns same_day_df (primary (snd (temp_schema ! 0))) \<and>
   length (remdups (time_index same_day_df)) = 1 \<and>
   lib_linregress example_numerics (time_index same_day_df) (col_values same_day_df ''temp'') =
     Inl ValueError \<and>
   analyze example_numerics same_day_df ''unknown'' temp_schema = Inl ValueError"
  by (simp add: analyze_eval same_day_df_def time_index_def)

theorem analyze_failure_propagation_witness:
  "df_rows same_day_df \<noteq> [] \<and>
   find (regression_fails example_numerics same_day_df) temp_schema = Some (temp_schema ! 0) \<and>
   analyze example_numerics same_day_df ''unknown'' temp_schema = Inl ValueError \<and>
   df_rows two_day_df \<noteq> [] \<and>
   find (regression_fails example_numerics two_day_df) temp_schema = None \<and>
   \<not> isl (analyze example_numerics two_day_df ''unknown'' temp_schema)"
proof -
  have a: "df_rows same_day_df \<noteq> []" by (simp add: same_day_df_def)
  have b: "find (regression_fails example_numerics same_day_df) temp_schema = Some (temp_schema ! 0)"
    by (simp add: regression_fails_def temp_schema_def same_day_df_def in_columns_def
        time_index_def dates_def col_values_def day_row_def example_linregress_def
        example_numerics_def)
  have c: "projl (lib_linregress example_numerics (time_index same_day_df)
             (col_values same_day_df (primary (snd (temp_schema ! 0))))) = ValueError"
    by (simp add: temp_schema_def same_day_df_def time_index_def dates_def col_values_def
        day_row_def example_linregress_def example_numerics_def)
  have d: "df_rows two_day_df \<noteq> []" by (simp add: two_day_df_def)
  have e: "find (regression_fails example_numerics two_day_df) temp_schema = None"
    by (simp add: regression_fails_def temp_schema_def two_day_df_def in_columns_def
        time_index_def dates_def col_values_def day_row_def example_linregress_def
        example_numerics_def year_numeric_def dayofyear_def month_lengths_def is_leap_def Let_def)
  from analyze_failure_propagation [OF a, of example_numerics temp_schema "''unknown''"] b c
  have f: "analyze example_numerics same_day_df ''unknown'' temp_schema = Inl ValueError"
    by simp
  from analyze_failure_propagation [OF d, of example_numerics temp_schema "''unknown''"] e
  have g: "\<not> isl (analyze example_numerics two_day_df ''unknown'' temp_schema)"
    by auto
  from a b d e f g show ?thesis by simp
qed

section \<open>Properties of the realizer and the summarizer\<close>

lemma realize_unregistered:
  "map_of templates kind = None \<Longrightarrow> realize R r kind data = Inr []"
  by (simp add: realize_def)

lemmas realize_eval =
  realize_def prepare_data_def format_date_item_def temperature_summary_fields_def
  trend_fields_def describe_trend_py_def precipitation_summary_fields_def extreme_fields_def correlation_fields_def
  bind_err_def getitem_def py_in_def truthy_def as_float_def as_dict_def format_value_def
  templates_def sublist_code update_conv'
  basic_py_def date_py_def summary_py_def range_py_def trend_py_def seasonal_py_def yearly_py_def
  event_py_def extremes_py_def features_py_def group_py_def max_corr_py_def opt_py_def
  opt_item_def real_py_def

lemma realize_empty_correlation:
  "realize R r ''pattern_correlation'' (payload_py (CorrelationP None)) =
     Inl (KeyError ''correlation'')"
  by (simp add: realize_eval)

lemma realize_half_extremes:
  "realize R r ''temperature_extremes''
     (payload_py (ExtremesP \<lparr>highest = Some \<lparr>event_value = 34, event_date = d\<rparr>, lowest = None\<rparr>)) =
     Inr []"
  by (simp add: realize_eval)

lemma realize_demo_overview:
  "realize R r ''overview'' (payload_py (Overview demo_basic)) =
     Inr (''This analysis covers daily weather observations from unknown, spanning '' @
          render_date R \<lparr>year = 2020, month = 1, day = 1\<rparr> @ '' to '' @
          render_date R \<lparr>year = 2022, month = 12, day = 31\<rparr> @ ''.'')"
  by (simp add: realize_eval demo_defs)

lemma realize_demo_trend:
  "realize R r ''temperature_trend'' (payload_py (TrendP (g_trend demo_group))) =
     Inr ''Temperature showed significant increasing over the study period.''"
  by (simp add: realize_eval demo_defs describe_trend_def)

lemma realize_demo_yearly:
  "realize R r ''temperature_yearly'' (payload_py (YearlyP (the (g_yearly demo_group)))) =
     Inr (render_str R (PInt 2022) @ '' was the warmest year at '' @
          render_fixed R 1 (Fl (35/2)) @ degree_sign @ ''C, while '' @
          render_str R (PInt 2020) @ '' was the coolest at '' @
          render_fixed R 1 (Fl 14) @ degree_sign @ ''C.'')"
  by (simp add: realize_eval demo_defs)

lemma realize_demo_summary:
  "realize R 0 ''temperature_summary'' (payload_py (GroupP demo_group)) =
     Inr (''Temperatures averaged '' @ render_fixed R 1 (Fl 15) @ degree_sign @
          ''C, ranging from '' @ render_fixed R 1 (Fl 10) @ degree_sign @ ''C to '' @
          render_fixed R 1 (Fl 20) @ degree_sign @ ''C.'')"
  by (simp add: realize_eval demo_defs)

lemma realize_format_key_error:
  assumes "map_of templates kind = Some ts" "prepare_data R kind data = Inr formatted"
    and "format_template R (ts ! (r mod length ts)) formatted = Inl (KeyError k)"
  shows "realize R r kind data = Inr []"
  using assms by (simp add: realize_def bind_err_def)

text \<open>
  C9, evaluated on the code. For the \<open>pattern_correlation\<close> fact with the empty dictionary
  as payload, which lacks the fields of its template, \<open>realize\<close> raises
  \<open>KeyError('correlation')\<close>: the lookup is in \<open>_prepare_data\<close>, outside the \<open>try\<close>. A
  \<open>temperature_extremes\<close> fact without its \<open>lowest\<close> entry does give the empty string:
  there the missing field is met by \<open>template.format\<close>. The planner emits the first fact
  for statistics with no correlation entry, and the summary is then the exception.
\<close>

theorem realize_prepare_data_raises:
  "realize R r ''pattern_correlation'' (payload_py (CorrelationP None)) =
     Inl (KeyError ''correlation'') \<and>
   realize R r ''temperature_extremes''
     (payload_py (ExtremesP \<lparr>highest = Some \<lparr>event_value = 34, event_date = d\<rparr>, lowest = None\<rparr>)) =
     Inr [] \<and>
   select_content demo_cfg (demo_stats []) =
     [(''overview'', Overview demo_basic),
      (''temperature_summary'', GroupP demo_group),
      (''temperature_trend'', TrendP (g_trend demo_group)),
      (''temperature_yearly'', YearlyP (the (g_yearly demo_group))),
      (''pattern_correlation'', CorrelationP None)] \<and>
   summary_text R (\<lambda>n. 0) (select_content demo_cfg (demo_stats [])) = Inl (KeyError ''correlation'')"
proof -
  have content: "select_content demo_cfg (demo_stats []) =
     [(''overview'', Overview demo_basic),
      (''temperature_summary'', GroupP demo_group),
      (''temperature_trend'', TrendP (g_trend demo_group)),
      (''temperature_yearly'', YearlyP (the (g_yearly demo_group))),
      (''pattern_correlation'', CorrelationP None)]"
    by (simp add: select_content_parts spec_primary_facts_def spec_other_conditions_def
        spec_pattern_facts_def secondary_names_def is_variable_notable_def demo_defs)
  have reg: "map_of templates ''overview'' \<noteq> None" "map_of templates ''temperature_summary'' \<noteq> None"
    "map_of templates ''temperature_trend'' \<noteq> None" "map_of templates ''temperature_yearly'' \<noteq> None"
    by (simp_all add: templates_def)
  have "summary_text R (\<lambda>n. 0) (select_content demo_cfg (demo_stats [])) = Inl (KeyError ''correlation'')"
    unfolding content summary_text_def
    by (simp add: realize_demo_overview realize_demo_summary realize_demo_trend
        realize_demo_yearly realize_empty_correlation reg bind_err_def
        del: payload_py.simps)
  with content realize_empty_correlation realize_half_extremes show ?thesis by simp
qed

lemma render_facts_may_contribute:
  "render_facts R rnd n content sentences =
   render_facts R rnd n (filter may_contribute content) sentences"
proof (induction content arbitrary: n sentences)
  case Nil
  then show ?case by simp
next
  case (Cons f rest)
  show ?case
  proof (cases "may_contribute f")
    case True
    then show ?thesis by (simp add: Cons.IH [symmetric])
  next
    case False
    then have "fst f \<noteq> ''other_conditions''" "map_of templates (fst f) = None"
      by (simp_all add: may_contribute_def in_registry_def)
    with False show ?thesis
      by (simp add: realize_unregistered bind_err_def Cons.IH [symmetric])
  qed
qed

lemma unregistered_kinds:
  "map_of templates ''pattern_trends'' = None"
  "map_of templates ''precipitation_seasonal'' = None"
  "map_of templates ''precipitation_yearly'' = None"
  "map_of templates ''other_conditions'' = None"
  by (simp_all add: templates_def)

lemma combined_conditions_sentence:
  assumes "vs \<noteq> []"
  shows "\<exists>s. realize_combined_conditions R vs = Inr (''Other conditions included '' @ s)"
proof -
  have "map (describe_condition R) vs \<noteq> []" using assms by simp
  then show ?thesis
    unfolding realize_combined_conditions_def Let_def by (simp del: map_is_Nil_conv)
qed

lemma other_conditions_summary:
  assumes "realize_combined_conditions R vs = Inr (c # cs)"
  shows "summary_text R rnd [(''other_conditions'', OtherP vs)] = Inr (c # cs)"
  using assms by (simp add: summary_text_def bind_err_def join_with_def)

lemma summary_text_nil: "summary_text R rnd [] = Inr []"
  by (simp add: summary_text_def bind_err_def join_with_def)

lemma wind_content:
  "select_content demo_cfg wind_stats =
     [(''overview'', Overview demo_basic),
      (''other_conditions'', OtherP [(''wind_speed'', demo_group)])]"
  by (simp add: select_content_def primary_step_def secondary_step_def is_variable_notable_def
      wind_stats_def demo_cfg_def demo_group_def)

lemma wind_sentence:
  "realize_combined_conditions R [(''wind_speed'', demo_group)] =
     Inr (''Other conditions included wind speed averaging '' @
          render_fixed R 1 (Fl 15) @ '' kmh.'')"
  by (simp add: realize_combined_conditions_def describe_condition_def demo_group_def)

text \<open>
  C10, as stated, on the fact type \<open>other_conditions\<close>: the template registry has no
  entry for it and \<open>realize\<close> gives the empty string for it, the planner emits it for
  statistics in which the wind speed is notable, and yet the loop of \<open>generate_summary\<close>
  gets a sentence for it, from \<open>realize_combined_conditions\<close>, which stands in the summary
  after the overview.
\<close>

theorem other_conditions_counterexample:
  "map_of templates ''other_conditions'' = None \<and>
   realize plain_renderer 0 ''other_conditions''
     (payload_py (OtherP [(''wind_speed'', demo_group)])) = Inr [] \<and>
   select_content demo_cfg wind_stats =
     [(''overview'', Overview demo_basic),
      (''other_conditions'', OtherP [(''wind_speed'', demo_group)])] \<and>
   summary_text plain_renderer (\<lambda>n. 0) (select_content demo_cfg wind_stats) =
     Inr (''This analysis covers daily weather observations from unknown, spanning '' @
          render_date plain_renderer \<lparr>year = 2020, month = 1, day = 1\<rparr> @ '' to '' @
          render_date plain_renderer \<lparr>year = 2022, month = 12, day = 31\<rparr> @
          ''. Other conditions included wind speed averaging '' @
          render_fixed plain_renderer 1 (Fl 15) @ '' kmh.'')"
proof -
  have reg: "map_of templates ''overview'' \<noteq> None"
    by (simp add: templates_def)
  have "summary_text plain_renderer (\<lambda>n. 0) (select_content demo_cfg wind_stats) =
     Inr (''This analysis covers daily weather observations from unknown, spanning '' @
          render_date plain_renderer \<lparr>year = 2020, month = 1, day = 1\<rparr> @ '' to '' @
          render_date plain_renderer \<lparr>year = 2022, month = 12, day = 31\<rparr> @
          ''. Other conditions included wind speed averaging '' @
          render_fixed plain_renderer 1 (Fl 15) @ '' kmh.'')"
    unfolding wind_content summary_text_def
    by (simp add: realize_demo_overview wind_sentence reg bind_err_def join_with_def
        del: payload_py.simps)
  then show ?thesis
    by (simp add: unregistered_kinds realize_unregistered wind_content)
qed

text \<open>
  C10, amended: \<open>realize\<close> returns the empty string for a fact type that has no templates,
  whatever the payload. The registry has no entry for \<open>other_conditions\<close> either, but the
  loop of \<open>generate_summary\<close> sends that fact to \<open>realize_combined_conditions\<close>, and a fact
  \<open>other_conditions\<close> with a non-empty list of variables contributes a sentence that
  begins with \<open>Other conditions included\<close>. The summary of a list of facts is the summary of
  the facts that are \<open>other_conditions\<close> or have templates, so every other fact contributes
  no sentence, in \<open>generate_summary\<close> too; \<open>pattern_trends\<close>, \<open>precipitation_seasonal\<close>
  and \<open>precipitation_yearly\<close>, which the planner emits, are of that silent kind.
\<close>

theorem unregistered_facts_silent:
  "(map_of templates kind = None \<longrightarrow> realize R r kind data = Inr []) \<and>
   map_of templates ''other_conditions'' = None \<and>
   (vs \<noteq> [] \<longrightarrow>
      (\<exists>s. realize_combined_conditions R vs = Inr (''Other conditions included '' @ s) \<and>
           summary_text R rnd [(''other_conditions'', OtherP vs)] =
             Inr (''Other conditions included '' @ s))) \<and>
   summary_text R rnd content = summary_text R rnd (filter may_contribute content) \<and>
   generate_summary R rnd lib cfg station_name df =
     bind_err (analyze lib df station_name summarizer_groups)
       (\<lambda>stats. summary_text R rnd (filter may_contribute (select_content cfg stats))) \<and>
   map_of templates ''pattern_trends'' = None \<and>
   map_of templates ''precipitation_seasonal'' = None \<and>
   map_of templates ''precipitation_yearly'' = None \<and>
   \<not> may_contribute (''pattern_trends'', p1) \<and>
   \<not> may_contribute (''precipitation_seasonal'', p2) \<and>
   \<not> may_contribute (''precipitation_yearly'', p3)"
proof -
  have eq: "summary_text R rnd c = summary_text R rnd (filter may_contribute c)" for c
    using render_facts_may_contribute [of R rnd 0 c "[]"] by (simp add: summary_text_def)
  have gen: "generate_summary R rnd lib cfg station_name df =
     bind_err (analyze lib df station_name summarizer_groups)
       (\<lambda>stats. summary_text R rnd (filter may_contribute (select_content cfg stats)))"
    unfolding generate_summary_def using eq by simp
  have other: "\<exists>s. realize_combined_conditions R vs = Inr (''Other conditions included '' @ s) \<and>
           summary_text R rnd [(''other_conditions'', OtherP vs)] =
             Inr (''Other conditions included '' @ s)" if "vs \<noteq> []"
  proof -
    from combined_conditions_sentence [OF that] obtain s where
      s: "realize_combined_conditions R vs = Inr (''Other conditions included '' @ s)"
      by blast
    then have "summary_text R rnd [(''other_conditions'', OtherP vs)] =
             Inr (''Other conditions included '' @ s)"
      using other_conditions_summary [of R vs _ _ rnd] by simp
    with s show ?thesis by blast
  qed
  have silent: "\<not> may_contribute (''pattern_trends'', p1)"
    "\<not> may_contribute (''precipitation_seasonal'', p2)"
    "\<not> may_contribute (''precipitation_yearly'', p3)"
    by (simp_all add: may_contribute_def in_registry_def unregistered_kinds)
  from eq [of content] gen other silent show ?thesis
    by (simp add: realize_unregistered unregistered_kinds)
qed

theorem unregistered_facts_silent_witness:
  "map_of templates ''pattern_trends'' = None \<and>
   realize plain_renderer 0 ''pattern_trends'' (payload_py (PatternTrendsP [demo_trending])) = Inr [] \<and>
   summary_text plain_renderer (\<lambda>n. 0)
     [(''pattern_trends'', PatternTrendsP [demo_trending]),
      (''precipitation_seasonal'', SeasonalP demo_seasonal)] = Inr [] \<and>
   [(''wind_speed'', demo_group)] \<noteq> [] \<and>
   (\<exists>s. summary_text plain_renderer (\<lambda>n. 0)
           [(''other_conditions'', OtherP [(''wind_speed'', demo_group)])] =
         Inr (''Other conditions included '' @ s))"
  using unregistered_facts_silent [where kind = "''pattern_trends''" and R = plain_renderer
      and r = 0 and data = "payload_py (PatternTrendsP [demo_trending])" and rnd = "\<lambda>n. 0"
      and vs = "[(''wind_speed'', demo_group)]"
      and lib = example_numerics and cfg = demo_cfg and station_name = "''unknown''"
      and df = one_row_df and ?p1.0 = "PatternTrendsP [demo_trending]"
      and ?p2.0 = "SeasonalP demo_seasonal" and ?p3.0 = "SeasonalP demo_seasonal"
      and content = "[(''pattern_trends'', PatternTrendsP [demo_trending]),
        (''precipitation_seasonal'', SeasonalP demo_seasonal)]"]
  by (auto simp add: unregistered_kinds summary_text_nil may_contribute_def in_registry_def
      realize_unregistered)

end
